theory Spec2Isabelle
  imports Complex_Main
begin

section \<open>Python values handled by the AI orchestration service\<close>

text \<open>
  The service in \<^verbatim>\<open>services/ai_service.py\<close> formats a prompt, sends it to a hosted
  model, decodes the reply with \<^verbatim>\<open>json.loads\<close> and hands the decoded mapping to one of
  the pydantic models of \<^verbatim>\<open>schemas/models.py\<close>. The values that flow through it are
  Python strings, numbers, lists and dicts.

  A Python string is a list of characters (\<^typ>\<open>string\<close>); one \<^typ>\<open>char\<close> stands for
  one character of the Python string, so that slicing and joining count the same
  units as the source.

  A Python \<^verbatim>\<open>float\<close> is a finite double or one of the three special values;
  \<^verbatim>\<open>json.loads\<close> produces all of them (it reads \<^verbatim>\<open>NaN\<close> and \<^verbatim>\<open>Infinity\<close>).
  A finite double is represented by its rational value.
\<close>

datatype pyfloat = Finite rat | PosInf | NegInf | NaN

text \<open>
  What \<^verbatim>\<open>json.loads\<close> returns: \<^verbatim>\<open>None\<close>, a \<^verbatim>\<open>bool\<close>, an \<^verbatim>\<open>int\<close>, a
  \<^verbatim>\<open>float\<close>, a \<^verbatim>\<open>str\<close>, a \<^verbatim>\<open>list\<close> or a \<^verbatim>\<open>dict\<close> with string keys. A dict is
  an association list read with \<^const>\<open>map_of\<close>.
\<close>

datatype json =
    JNull
  | JBool bool
  | JInt int
  | JFloat pyfloat
  | JString string
  | JArray "json list"
  | JObject "(string \<times> json) list"

text \<open>
  One entry of a pydantic \<^verbatim>\<open>ValidationError\<close>: the location (field name, then the
  index inside a list) and the error type.
\<close>

datatype loc_item = LField string | LIndex nat

datatype err_type =
    Missing
  | StringType
  | IntType
  | IntParsing
  | IntParsingSize
  | IntFromFloat
  | FiniteNumber
  | GreaterThanEqual
  | LessThanEqual
  | FloatType
  | FloatParsing
  | DictType
  | ListType

type_synonym line_error = "loc_item list \<times> err_type"

text \<open>
  The exceptions that leave \<^verbatim>\<open>_call_ai_model\<close>. \<^verbatim>\<open>KeyError\<close> is what the prompt
  template raises for a placeholder without a value (the spec's InputError),
  \<open>TransportError\<close> stands for whatever \<^verbatim>\<open>llm.invoke\<close> raises,
  \<^verbatim>\<open>JSONDecodeError\<close> is the decoder's failure (the spec's ParseError),
  \<^verbatim>\<open>TypeError\<close> is raised by \<^verbatim>\<open>output_model(**x)\<close> when \<open>x\<close> is not a mapping.
\<close>

datatype py_exn =
    KeyError string
  | ValueError
  | TransportError string
  | JSONDecodeError
  | TypeError
  | ValidationError "line_error list"

text \<open>
  Library functions the service relies on and whose code is not part of the repository.
  They are parameters of the model:
  \<^item> \<open>loads\<close> is \<^verbatim>\<open>json.loads\<close> (\<open>None\<close> when it raises \<^verbatim>\<open>JSONDecodeError\<close>);
  \<^item> \<open>str_as_int\<close>, \<open>str_as_float\<close> are pydantic's readers of a number written in a
    string; \<open>int_as_float\<close> is Python's conversion of an \<^verbatim>\<open>int\<close> to a double
    (\<open>None\<close> when it overflows).
\<close>

record pylib =
  loads :: "string \<Rightarrow> json option"
  str_as_int :: "string \<Rightarrow> int option"
  str_as_float :: "string \<Rightarrow> pyfloat option"
  int_as_float :: "int \<Rightarrow> pyfloat option"

section \<open>Prompt templates\<close>

text \<open>
  \<^verbatim>\<open>PromptTemplate.from_template(text)\<close> keeps the text; \<^verbatim>\<open>format(**kwargs)\<close> runs
  Python's format-string scanner over it: \<^verbatim>\<open>{{\<close> and \<^verbatim>\<open>}}\<close> are literal braces,
  \<^verbatim>\<open>{name}\<close> is replaced by \<^verbatim>\<open>kwargs[name]\<close>, a lone brace is an error. The scanner
  is a small automaton. Replacement fields other than a bare name (empty, or with a
  conversion, a format specification, an attribute or an index) are outside the
  fragment modelled here and end the scan as \<open>Malformed\<close>; none of the service's
  templates has one. The scan is lazy, as Python's is: the first failure from the
  left is the one raised. Keyword arguments that no placeholder uses are not looked
  at.
\<close>

datatype piece = Ch char | Field string | Malformed

datatype scan_state = Text | Opened | Name string | Closed

fun scan :: "scan_state \<Rightarrow> string \<Rightarrow> piece list" where
  "scan Text [] = []"
| "scan Text (c # cs) =
     (if c = CHR ''{'' then scan Opened cs
      else if c = CHR ''}'' then scan Closed cs
      else Ch c # scan Text cs)"
| "scan Opened [] = [Malformed]"
| "scan Opened (c # cs) =
     (if c = CHR ''{'' then Ch c # scan Text cs
      else if c \<in> set ''}!:.['' then [Malformed]
      else scan (Name [c]) cs)"
| "scan (Name n) [] = [Malformed]"
| "scan (Name n) (c # cs) =
     (if c = CHR ''}'' then Field n # scan Text cs
      else if c \<in> set ''{!:.['' then [Malformed]
      else scan (Name (n @ [c])) cs)"
| "scan Closed [] = [Malformed]"
| "scan Closed (c # cs) =
     (if c = CHR ''}'' then Ch c # scan Text cs else [Malformed])"

fun substitute :: "(string \<times> string) list \<Rightarrow> piece list \<Rightarrow> py_exn + string" where
  "substitute kw [] = Inr []"
| "substitute kw (Ch c # ps) =
     (case substitute kw ps of Inl e \<Rightarrow> Inl e | Inr r \<Rightarrow> Inr (c # r))"
| "substitute kw (Field n # ps) =
     (case map_of kw n of
        None \<Rightarrow> Inl (KeyError n)
      | Some v \<Rightarrow> (case substitute kw ps of Inl e \<Rightarrow> Inl e | Inr r \<Rightarrow> Inr (v @ r)))"
| "substitute kw (Malformed # ps) = Inl ValueError"

record PromptTemplate =
  template :: string

definition from_template :: "string \<Rightarrow> py_exn + PromptTemplate" where
  "from_template text =
     (if Malformed \<in> set (scan Text text) then Inl ValueError
      else Inr \<lparr>template = text\<rparr>)"

definition format :: "PromptTemplate \<Rightarrow> (string \<times> string) list \<Rightarrow> py_exn + string" where
  "format p kwargs = substitute kwargs (scan Text (template p))"

text \<open>Python's \<^verbatim>\<open>sep.join(xs)\<close>.\<close>

fun join :: "string \<Rightarrow> string list \<Rightarrow> string" where
  "join sep [] = []"
| "join sep [x] = x"
| "join sep (x # y # ys) = x @ sep @ join sep (y # ys)"

text \<open>The three template texts of \<^verbatim>\<open>AIService.__init__\<close>, character for character
  (each line is cut at its braces).\<close>

definition vibe_profiler_text :: string where
  "vibe_profiler_text =
     ''\<newline>'' @
     ''            Analyze the following 12-month transaction summary for a customer to generate a Vibe Report.\<newline>'' @
     ''            Identify their shopping persona, key behavioral metrics, key purchase metrics, and suggest a color palette.\<newline>'' @
     ''\<newline>'' @
     ''            Transaction Summary:\<newline>'' @
     ''            '' @ ''{transaction_summary}'' @ ''\<newline>'' @
     ''\<newline>'' @
     ''            Output must be a JSON object with the following keys:\<newline>'' @
     ''            - shopping_persona (string, e.g., \"Family Man\", \"Green Flag\", \"Tech Enthusiast\")\<newline>'' @
     ''            - key_behavioral_metrics (dictionary, e.g., '' @ ''{{'' @ ''\"avg_items_per_purchase\": 3, \"return_rate\": 0.05'' @ ''}}'' @ '')\<newline>'' @
     ''            - key_purchase_metrics (dictionary, e.g., '' @ ''{{'' @ ''\"total_spend\": 1200.50, \"most_bought_category\": \"Apparel\"'' @ ''}}'' @ '')\<newline>'' @
     ''            - color_palette_hints (list of strings, e.g., [\"#FFD700\", \"#FF6347\", \"#6A5ACD\"])\<newline>'' @
     ''            ''"

definition brand_voice_cloner_text :: string where
  "brand_voice_cloner_text =
     ''\<newline>'' @
     ''            Analyze the following 10 past campaign texts to extract the brand's tone, emoji density, CTA style, and body style.\<newline>'' @
     ''            Then, generate a new campaign body text based on these characteristics and predict its success score (0-100).\<newline>'' @
     ''\<newline>'' @
     ''            Past Campaign Texts:\<newline>'' @
     ''            '' @ ''{campaign_texts}'' @ ''\<newline>'' @
     ''\<newline>'' @
     ''            Output must be a JSON object with the following keys:\<newline>'' @
     ''            - tone (string, e.g., \"playful\", \"authoritative\", \"friendly\")\<newline>'' @
     ''            - emoji_density (float, percentage of emojis per word)\<newline>'' @
     ''            - cta_style (string, e.g., \"urgent\", \"informative\", \"subtle\")\<newline>'' @
     ''            - body_style (string, e.g., \"short paragraphs\", \"bullet points\", \"storytelling\")\<newline>'' @
     ''            - predicted_score (integer, 0-100, based on 'sent', 'read', 'unsent' patterns)\<newline>'' @
     ''            - new_campaign_body (string, the generated text)\<newline>'' @
     ''            ''"

definition smart_receipt_recommender_text :: string where
  "smart_receipt_recommender_text =
     ''\<newline>'' @
     ''            Based on the customer's current basket items and past purchase patterns,\<newline>'' @
     ''            recommend the next best item, provide a loyalty incentive text, and suggest relevant coupons.\<newline>'' @
     ''\<newline>'' @
     ''            Current Basket Items:\<newline>'' @
     ''            '' @ ''{current_basket_items}'' @ ''\<newline>'' @
     ''\<newline>'' @
     ''            Past Purchase Patterns:\<newline>'' @
     ''            '' @ ''{past_purchase_patterns}'' @ ''\<newline>'' @
     ''\<newline>'' @
     ''            Output must be a JSON object with the following keys:\<newline>'' @
     ''            - next_best_item (string, name of the recommended product)\<newline>'' @
     ''            - loyalty_incentive_text (string, e.g., \"Earn double points on your next purchase!\")\<newline>'' @
     ''            - coupons (list of strings, e.g., [\"10% off next coffee\", \"Free delivery on orders over $50\"])\<newline>'' @
     ''            ''"

text \<open>
  The text of each template around its placeholders, with the doubled braces of the
  template read as single ones: what a formatted prompt has before, between and after
  the values put in.
\<close>

definition vibe_profiler_head :: string where
  "vibe_profiler_head =
     ''\<newline>'' @
     ''            Analyze the following 12-month transaction summary for a customer to generate a Vibe Report.\<newline>'' @
     ''            Identify their shopping persona, key behavioral metrics, key purchase metrics, and suggest a color palette.\<newline>'' @
     ''\<newline>'' @
     ''            Transaction Summary:\<newline>'' @
     ''            ''"

definition vibe_profiler_tail :: string where
  "vibe_profiler_tail =
     ''\<newline>'' @
     ''\<newline>'' @
     ''            Output must be a JSON object with the following keys:\<newline>'' @
     ''            - shopping_persona (string, e.g., \"Family Man\", \"Green Flag\", \"Tech Enthusiast\")\<newline>'' @
     ''            - key_behavioral_metrics (dictionary, e.g., '' @ ''{'' @ ''\"avg_items_per_purchase\": 3, \"return_rate\": 0.05'' @ ''}'' @ '')\<newline>'' @
     ''            - key_purchase_metrics (dictionary, e.g., '' @ ''{'' @ ''\"total_spend\": 1200.50, \"most_bought_category\": \"Apparel\"'' @ ''}'' @ '')\<newline>'' @
     ''            - color_palette_hints (list of strings, e.g., [\"#FFD700\", \"#FF6347\", \"#6A5ACD\"])\<newline>'' @
     ''            ''"

definition brand_voice_cloner_head :: string where
  "brand_voice_cloner_head =
     ''\<newline>'' @
     ''            Analyze the following 10 past campaign texts to extract the brand's tone, emoji density, CTA style, and body style.\<newline>'' @
     ''            Then, generate a new campaign body text based on these characteristics and predict its success score (0-100).\<newline>'' @
     ''\<newline>'' @
     ''            Past Campaign Texts:\<newline>'' @
     ''            ''"

definition brand_voice_cloner_tail :: string where
  "brand_voice_cloner_tail =
     ''\<newline>'' @
     ''\<newline>'' @
     ''            Output must be a JSON object with the following keys:\<newline>'' @
     ''            - tone (string, e.g., \"playful\", \"authoritative\", \"friendly\")\<newline>'' @
     ''            - emoji_density (float, percentage of emojis per word)\<newline>'' @
     ''            - cta_style (string, e.g., \"urgent\", \"informative\", \"subtle\")\<newline>'' @
     ''            - body_style (string, e.g., \"short paragraphs\", \"bullet points\", \"storytelling\")\<newline>'' @
     ''            - predicted_score (integer, 0-100, based on 'sent', 'read', 'unsent' patterns)\<newline>'' @
     ''            - new_campaign_body (string, the generated text)\<newline>'' @
     ''            ''"

definition smart_receipt_recommender_head :: string where
  "smart_receipt_recommender_head =
     ''\<newline>'' @
     ''            Based on the customer's current basket items and past purchase patterns,\<newline>'' @
     ''            recommend the next best item, provide a loyalty incentive text, and suggest relevant coupons.\<newline>'' @
     ''\<newline>'' @
     ''            Current Basket Items:\<newline>'' @
     ''            ''"

definition smart_receipt_recommender_middle :: string where
  "smart_receipt_recommender_middle =
     ''\<newline>'' @
     ''\<newline>'' @
     ''            Past Purchase Patterns:\<newline>'' @
     ''            ''"

definition smart_receipt_recommender_tail :: string where
  "smart_receipt_recommender_tail =
     ''\<newline>'' @
     ''\<newline>'' @
     ''            Output must be a JSON object with the following keys:\<newline>'' @
     ''            - next_best_item (string, name of the recommended product)\<newline>'' @
     ''            - loyalty_incentive_text (string, e.g., \"Earn double points on your next purchase!\")\<newline>'' @
     ''            - coupons (list of strings, e.g., [\"10% off next coffee\", \"Free delivery on orders over $50\"])\<newline>'' @
     ''            ''"

section \<open>The output models of \<^verbatim>\<open>schemas/models.py\<close>\<close>

text \<open>
  \<^verbatim>\<open>schemas/models.py\<close> declares the fields of each model, their types and the bounds
  of \<open>predicted_score\<close>; what a declaration means is pydantic's business. The field
  validators of pydantic (version 2, default lax mode) on values that come from
  \<^verbatim>\<open>json.loads\<close>:
  \<^item> \<^verbatim>\<open>str\<close> accepts a string only;
  \<^item> \<^verbatim>\<open>int\<close> accepts an int, a bool, a float that is finite, has no fractional part
    and lies strictly between \<open>-2^63\<close> and \<open>2^63\<close>, and a string that reads as an
    integer; the bounds \<^verbatim>\<open>le\<close>, then \<^verbatim>\<open>ge\<close>, are checked on the converted value;
  \<^item> \<^verbatim>\<open>float\<close> accepts a float, an int, a bool and a string that reads as a float;
  \<^item> \<^verbatim>\<open>Dict[str, Any]\<close> accepts a dict (its keys are strings already) and keeps
    every value as it is;
  \<^item> \<^verbatim>\<open>List[str]\<close> accepts a list whose elements are strings; each other element is
    reported under its index.
\<close>

fun validate_str :: "json \<Rightarrow> line_error list + string" where
  "validate_str (JString s) = Inr s"
| "validate_str _ = Inl [([], StringType)]"

definition float_as_int :: "pyfloat \<Rightarrow> line_error list + int" where
  "float_as_int f =
     (case f of
        Finite r \<Rightarrow>
          (if r \<notin> \<int> then Inl [([], IntFromFloat)]
           else if - (2 ^ 63) < r \<and> r < 2 ^ 63 then Inr \<lfloor>r\<rfloor>
           else Inl [([], IntParsingSize)])
      | _ \<Rightarrow> Inl [([], FiniteNumber)])"

fun lax_int :: "pylib \<Rightarrow> json \<Rightarrow> line_error list + int" where
  "lax_int L (JInt i) = Inr i"
| "lax_int L (JBool b) = Inr (if b then 1 else 0)"
| "lax_int L (JString s) =
     (case str_as_int L s of None \<Rightarrow> Inl [([], IntParsing)] | Some i \<Rightarrow> Inr i)"
| "lax_int L (JFloat f) = float_as_int f"
| "lax_int L _ = Inl [([], IntType)]"

definition validate_int ::
  "pylib \<Rightarrow> int option \<Rightarrow> int option \<Rightarrow> json \<Rightarrow> line_error list + int" where
  "validate_int L ge le v =
     (case lax_int L v of
        Inl es \<Rightarrow> Inl es
      | Inr i \<Rightarrow>
          (if (case le of None \<Rightarrow> False | Some hi \<Rightarrow> \<not> i \<le> hi) then Inl [([], LessThanEqual)]
           else if (case ge of None \<Rightarrow> False | Some lo \<Rightarrow> \<not> lo \<le> i) then Inl [([], GreaterThanEqual)]
           else Inr i))"

fun validate_float :: "pylib \<Rightarrow> json \<Rightarrow> line_error list + pyfloat" where
  "validate_float L (JFloat f) = Inr f"
| "validate_float L (JString s) =
     (case str_as_float L s of None \<Rightarrow> Inl [([], FloatParsing)] | Some f \<Rightarrow> Inr f)"
| "validate_float L (JInt i) =
     (case int_as_float L i of None \<Rightarrow> Inl [([], FloatType)] | Some f \<Rightarrow> Inr f)"
| "validate_float L (JBool b) = Inr (Finite (if b then 1 else 0))"
| "validate_float L _ = Inl [([], FloatType)]"

fun validate_dict_str_any :: "json \<Rightarrow> line_error list + (string \<times> json) list" where
  "validate_dict_str_any (JObject kvs) = Inr kvs"
| "validate_dict_str_any _ = Inl [([], DictType)]"

text \<open>
  The items of a list are validated in order, item \<open>i\<close> under the location \<open>[i]\<close>;
  the errors of all items are collected.
\<close>

fun validate_items :: "nat \<Rightarrow> json list \<Rightarrow> line_error list + string list" where
  "validate_items i [] = Inr []"
| "validate_items i (x # xs) =
     (case (validate_str x, validate_items (Suc i) xs) of
        (Inr s, Inr ss) \<Rightarrow> Inr (s # ss)
      | (Inr s, Inl es) \<Rightarrow> Inl es
      | (Inl e, Inr ss) \<Rightarrow> Inl (map (\<lambda>(loc, t). (LIndex i # loc, t)) e)
      | (Inl e, Inl es) \<Rightarrow> Inl (map (\<lambda>(loc, t). (LIndex i # loc, t)) e @ es))"

fun validate_list_str :: "json \<Rightarrow> line_error list + string list" where
  "validate_list_str (JArray xs) = validate_items 0 xs"
| "validate_list_str _ = Inl [([], ListType)]"

text \<open>
  A required field (\<^verbatim>\<open>Field(...)\<close>) of a model: absent from the keyword arguments it is
  reported as missing, present it is validated and its errors are located under the
  field's name.
\<close>

definition required ::
  "string \<Rightarrow> (json \<Rightarrow> line_error list + 'a) \<Rightarrow> (string \<times> json) list \<Rightarrow> line_error list + 'a" where
  "required name validator kwargs =
     (case map_of kwargs name of
        None \<Rightarrow> Inl [([LField name], Missing)]
      | Some v \<Rightarrow>
          (case validator v of
             Inl es \<Rightarrow> Inl (map (\<lambda>(loc, t). (LField name # loc, t)) es)
           | Inr x \<Rightarrow> Inr x))"

text \<open>
  A model validates all its fields, in declaration order, and raises one
  \<^verbatim>\<open>ValidationError\<close> listing the errors of all of them. \<open>also_field\<close> adds one field to
  a partially built model: it applies the constructor when both sides are valid and
  appends the error lists otherwise.
\<close>

definition also_field ::
  "line_error list + ('a \<Rightarrow> 'b) \<Rightarrow> line_error list + 'a \<Rightarrow> line_error list + 'b" where
  "also_field f x =
     (case (f, x) of
        (Inr g, Inr v) \<Rightarrow> Inr (g v)
      | (Inr g, Inl es) \<Rightarrow> Inl es
      | (Inl fs, Inr v) \<Rightarrow> Inl fs
      | (Inl fs, Inl es) \<Rightarrow> Inl (fs @ es))"

record VibeReportOutput =
  shopping_persona :: string
  key_behavioral_metrics :: "(string \<times> json) list"
  key_purchase_metrics :: "(string \<times> json) list"
  color_palette_hints :: "string list"

record BrandVoiceOutput =
  tone :: string
  emoji_density :: pyfloat
  cta_style :: string
  body_style :: string
  predicted_score :: int
  new_campaign_body :: string

record SmartReceiptOutput =
  next_best_item :: string
  loyalty_incentive_text :: string
  coupons :: "string list"

text \<open>
  The constructors \<^verbatim>\<open>VibeReportOutput(**kwargs)\<close> and so on. Keyword arguments that
  are not fields of the model are never looked at (pydantic's default
  \<^verbatim>\<open>extra='ignore'\<close>).
\<close>

definition new_VibeReportOutput ::
  "pylib \<Rightarrow> (string \<times> json) list \<Rightarrow> line_error list + VibeReportOutput" where
  "new_VibeReportOutput L kwargs =
     also_field (also_field (also_field (also_field
       (Inr (\<lambda>a b c d. \<lparr>shopping_persona = a, key_behavioral_metrics = b,
                        key_purchase_metrics = c, color_palette_hints = d\<rparr>))
       (required ''shopping_persona'' validate_str kwargs))
       (required ''key_behavioral_metrics'' validate_dict_str_any kwargs))
       (required ''key_purchase_metrics'' validate_dict_str_any kwargs))
       (required ''color_palette_hints'' validate_list_str kwargs)"

definition new_BrandVoiceOutput ::
  "pylib \<Rightarrow> (string \<times> json) list \<Rightarrow> line_error list + BrandVoiceOutput" where
  "new_BrandVoiceOutput L kwargs =
     also_field (also_field (also_field (also_field (also_field (also_field
       (Inr (\<lambda>a b c d e f. \<lparr>tone = a, emoji_density = b, cta_style = c, body_style = d,
                            predicted_score = e, new_campaign_body = f\<rparr>))
       (required ''tone'' validate_str kwargs))
       (required ''emoji_density'' (validate_float L) kwargs))
       (required ''cta_style'' validate_str kwargs))
       (required ''body_style'' validate_str kwargs))
       (required ''predicted_score'' (validate_int L (Some 0) (Some 100)) kwargs))
       (required ''new_campaign_body'' validate_str kwargs)"

definition new_SmartReceiptOutput ::
  "pylib \<Rightarrow> (string \<times> json) list \<Rightarrow> line_error list + SmartReceiptOutput" where
  "new_SmartReceiptOutput L kwargs =
     also_field (also_field (also_field
       (Inr (\<lambda>a b c. \<lparr>next_best_item = a, loyalty_incentive_text = b, coupons = c\<rparr>))
       (required ''next_best_item'' validate_str kwargs))
       (required ''loyalty_incentive_text'' validate_str kwargs))
       (required ''coupons'' validate_list_str kwargs)"

section \<open>The service\<close>

text \<open>
  An \<^verbatim>\<open>AIService\<close> object holds the endpoint handle and the three templates. The
  handle is the hosted model as the service sees it: a prompt goes in, and either the
  reply's text comes back or the call raises (\<open>Inl\<close>, with the exception's message).
  It is assumed that what \<^verbatim>\<open>invoke\<close> raises is not pydantic's \<^verbatim>\<open>ValidationError\<close>.
\<close>

record AIService =
  llm :: "string \<Rightarrow> string + string"
  vibe_profiler_prompt :: PromptTemplate
  brand_voice_cloner_prompt :: PromptTemplate
  smart_receipt_recommender_prompt :: PromptTemplate

definition AIService_init :: "(string \<Rightarrow> string + string) \<Rightarrow> py_exn + AIService" where
  "AIService_init handle =
     (case from_template vibe_profiler_text of Inl e \<Rightarrow> Inl e | Inr p1 \<Rightarrow>
     (case from_template brand_voice_cloner_text of Inl e \<Rightarrow> Inl e | Inr p2 \<Rightarrow>
     (case from_template smart_receipt_recommender_text of Inl e \<Rightarrow> Inl e | Inr p3 \<Rightarrow>
        Inr \<lparr>llm = handle, vibe_profiler_prompt = p1, brand_voice_cloner_prompt = p2,
             smart_receipt_recommender_prompt = p3\<rparr>)))"

text \<open>
  What a call can observe and change: the service object itself, the prompts sent to
  the hosted model so far (one entry per request), and the log. A log record keeps
  the data of the source's message: the first 200 characters of the prompt or of the
  reply, or the error; for a validation error, the errors and the whole raw reply.
\<close>

datatype log_record =
    LogSending string
  | LogReceived string
  | LogSuccess
  | LogValidationError "line_error list" string
  | LogError py_exn

record runtime =
  self :: AIService
  requests :: "string list"
  logging :: "log_record list"

definition log_to :: "log_record \<Rightarrow> runtime \<Rightarrow> runtime" where
  "log_to r w = w\<lparr>logging := logging w @ [r]\<rparr>"

definition invoke :: "string \<Rightarrow> runtime \<Rightarrow> (string + string) \<times> runtime" where
  "invoke prompt w = (llm (self w) prompt, w\<lparr>requests := requests w @ [prompt]\<rparr>)"

text \<open>
  \<^verbatim>\<open>_call_ai_model\<close>. Every exception is logged and raised again; nothing is caught
  for good.
\<close>

definition call_ai_model ::
  "pylib \<Rightarrow> PromptTemplate \<Rightarrow> (string \<times> string) list \<Rightarrow>
   ((string \<times> json) list \<Rightarrow> line_error list + 'a) \<Rightarrow> runtime \<Rightarrow> (py_exn + 'a) \<times> runtime" where
  "call_ai_model L prompt input_data output_model w =
     (case format prompt input_data of
        Inl e \<Rightarrow> (Inl e, log_to (LogError e) w)
      | Inr formatted_prompt \<Rightarrow>
          (let w1 = log_to (LogSending (take 200 formatted_prompt)) w in
           case invoke formatted_prompt w1 of
             (Inl msg, w2) \<Rightarrow> (Inl (TransportError msg), log_to (LogError (TransportError msg)) w2)
           | (Inr response_content, w2) \<Rightarrow>
               (let w3 = log_to (LogReceived (take 200 response_content)) w2 in
                case loads L response_content of
                  None \<Rightarrow> (Inl JSONDecodeError, log_to (LogError JSONDecodeError) w3)
                | Some (JObject response_json) \<Rightarrow>
                    (case output_model response_json of
                       Inl errors \<Rightarrow>
                         (Inl (ValidationError errors),
                          log_to (LogValidationError errors response_content) w3)
                     | Inr validated_output \<Rightarrow> (Inr validated_output, log_to LogSuccess w3))
                | Some _ \<Rightarrow> (Inl TypeError, log_to (LogError TypeError) w3))))"

definition get_vibe_report ::
  "pylib \<Rightarrow> string \<Rightarrow> runtime \<Rightarrow> (py_exn + VibeReportOutput) \<times> runtime" where
  "get_vibe_report L transaction_summary w =
     call_ai_model L (vibe_profiler_prompt (self w))
       [(''transaction_summary'', transaction_summary)]
       (new_VibeReportOutput L) w"

definition clone_brand_voice ::
  "pylib \<Rightarrow> string list \<Rightarrow> runtime \<Rightarrow> (py_exn + BrandVoiceOutput) \<times> runtime" where
  "clone_brand_voice L campaign_texts w =
     call_ai_model L (brand_voice_cloner_prompt (self w))
       [(''campaign_texts'', join ''\<newline>'' campaign_texts)]
       (new_BrandVoiceOutput L) w"

text \<open>
  \<^verbatim>\<open>str(past_purchase_patterns)\<close> is Python's built-in rendering of a dict; it is the
  parameter \<open>str_of\<close>, and the mapping's type is left open.
\<close>

definition get_smart_receipt_recommendations ::
  "pylib \<Rightarrow> ('d \<Rightarrow> string) \<Rightarrow> string list \<Rightarrow> 'd \<Rightarrow> runtime \<Rightarrow>
   (py_exn + SmartReceiptOutput) \<times> runtime" where
  "get_smart_receipt_recommendations L str_of current_basket_items past_purchase_patterns w =
     call_ai_model L (smart_receipt_recommender_prompt (self w))
       [(''current_basket_items'', join '', '' current_basket_items),
        (''past_purchase_patterns'', str_of past_purchase_patterns)]
       (new_SmartReceiptOutput L) w"

section \<open>Notions used to state the properties\<close>

text \<open>
  A field is rejected by a model when the keyword arguments do not have it or when
  its validator does not accept the value they give it.
\<close>

definition rejected ::
  "string \<Rightarrow> (json \<Rightarrow> line_error list + 'a) \<Rightarrow> (string \<times> json) list \<Rightarrow> bool" where
  "rejected name validator kwargs =
     (case map_of kwargs name of None \<Rightarrow> True | Some v \<Rightarrow> isl (validator v))"

text \<open>The fields of each model, as declared, and those among them that are rejected.\<close>

definition VibeReportOutput_fields :: "string list" where
  "VibeReportOutput_fields =
     [''shopping_persona'', ''key_behavioral_metrics'', ''key_purchase_metrics'',
      ''color_palette_hints'']"

definition BrandVoiceOutput_fields :: "string list" where
  "BrandVoiceOutput_fields =
     [''tone'', ''emoji_density'', ''cta_style'', ''body_style'', ''predicted_score'',
      ''new_campaign_body'']"

definition SmartReceiptOutput_fields :: "string list" where
  "SmartReceiptOutput_fields = [''next_best_item'', ''loyalty_incentive_text'', ''coupons'']"

definition VibeReportOutput_rejected :: "(string \<times> json) list \<Rightarrow> string set" where
  "VibeReportOutput_rejected kwargs =
     {f. f = ''shopping_persona'' \<and> rejected f validate_str kwargs} \<union>
     {f. f = ''key_behavioral_metrics'' \<and> rejected f validate_dict_str_any kwargs} \<union>
     {f. f = ''key_purchase_metrics'' \<and> rejected f validate_dict_str_any kwargs} \<union>
     {f. f = ''color_palette_hints'' \<and> rejected f validate_list_str kwargs}"

definition BrandVoiceOutput_rejected :: "pylib \<Rightarrow> (string \<times> json) list \<Rightarrow> string set" where
  "BrandVoiceOutput_rejected L kwargs =
     {f. f = ''tone'' \<and> rejected f validate_str kwargs} \<union>
     {f. f = ''emoji_density'' \<and> rejected f (validate_float L) kwargs} \<union>
     {f. f = ''cta_style'' \<and> rejected f validate_str kwargs} \<union>
     {f. f = ''body_style'' \<and> rejected f validate_str kwargs} \<union>
     {f. f = ''predicted_score'' \<and> rejected f (validate_int L (Some 0) (Some 100)) kwargs} \<union>
     {f. f = ''new_campaign_body'' \<and> rejected f validate_str kwargs}"

definition SmartReceiptOutput_rejected :: "(string \<times> json) list \<Rightarrow> string set" where
  "SmartReceiptOutput_rejected kwargs =
     {f. f = ''next_best_item'' \<and> rejected f validate_str kwargs} \<union>
     {f. f = ''loyalty_incentive_text'' \<and> rejected f validate_str kwargs} \<union>
     {f. f = ''coupons'' \<and> rejected f validate_list_str kwargs}"

text \<open>The errors that a validation result carries (none when it is a value).\<close>

definition errors_of :: "line_error list + 'a \<Rightarrow> line_error list" where
  "errors_of r = (case r of Inl es \<Rightarrow> es | Inr x \<Rightarrow> [])"

text \<open>The fields that the entries of a validation error name.\<close>

definition named_fields :: "line_error list \<Rightarrow> string set" where
  "named_fields es = {f. \<exists>loc t. (LField f # loc, t) \<in> set es}"

text \<open>
  A stubbed endpoint and stubbed library functions, for running the operations on
  concrete inputs: the endpoint answers every prompt with the same text, the decoder
  knows the replies used below (among them \<^verbatim>\<open>NaN\<close>, which \<^verbatim>\<open>json.loads\<close> reads as a
  float although it is not JSON), and the number readers know \<^verbatim>\<open>"50"\<close>.
\<close>

definition smart_receipt_reply :: string where
  "smart_receipt_reply =
     ''{\"next_best_item\":\"Oat Milk\",\"loyalty_incentive_text\":\"Earn double points!\",\"coupons\":[\"10% off coffee\"]}''"

definition smart_receipt_extra_reply :: string where
  "smart_receipt_extra_reply =
     ''{\"next_best_item\":\"Oat Milk\",\"loyalty_incentive_text\":\"Earn double points!\",\"coupons\":[\"10% off coffee\"],\"confidence\":0.9}''"

definition vibe_reply :: string where
  "vibe_reply =
     ''{\"shopping_persona\":\"Green Flag\",\"key_behavioral_metrics\":{\"return_rate\":0.05},\"key_purchase_metrics\":{\"total_spend\":350},\"color_palette_hints\":[\"#6A5ACD\"]}''"

definition brand_voice_reply :: "string \<Rightarrow> string" where
  "brand_voice_reply score =
     ''{\"tone\":\"playful\",\"emoji_density\":0.5,\"cta_style\":\"urgent\",\"body_style\":\"storytelling\",\"predicted_score\":'' @
     score @ '',\"new_campaign_body\":\"Shop now!\"}''"

definition brand_voice_object :: "json \<Rightarrow> json" where
  "brand_voice_object score =
     JObject [(''tone'', JString ''playful''), (''emoji_density'', JFloat (Finite (1 / 2))),
              (''cta_style'', JString ''urgent''), (''body_style'', JString ''storytelling''),
              (''predicted_score'', score), (''new_campaign_body'', JString ''Shop now!'')]"

definition vibe_extra_reply :: string where
  "vibe_extra_reply =
     ''{\"shopping_persona\":\"Green Flag\",\"key_behavioral_metrics\":{},\"key_purchase_metrics\":{},\"color_palette_hints\":[],\"notes\":null}''"

definition brand_voice_extra_reply :: string where
  "brand_voice_extra_reply =
     ''{\"language\":\"en\",\"tone\":\"playful\",\"emoji_density\":0.5,\"cta_style\":\"urgent\",\"body_style\":\"storytelling\",\"predicted_score\":72,\"new_campaign_body\":\"Shop now!\"}''"

definition brand_voice_nan_reply :: string where
  "brand_voice_nan_reply =
     ''{\"tone\":\"playful\",\"emoji_density\":NaN,\"cta_style\":\"urgent\",\"body_style\":\"storytelling\",\"predicted_score\":72,\"new_campaign_body\":\"Shop now!\"}''"

definition brand_voice_partial_reply :: string where
  "brand_voice_partial_reply =
     ''{\"tone\":\"playful\",\"emoji_density\":0.5,\"cta_style\":\"urgent\",\"body_style\":\"storytelling\",\"new_campaign_body\":\"Shop now!\"}''"

definition stub_loads :: "string \<Rightarrow> json option" where
  "stub_loads s =
     (if s = smart_receipt_reply then
        Some (JObject [(''next_best_item'', JString ''Oat Milk''),
                       (''loyalty_incentive_text'', JString ''Earn double points!''),
                       (''coupons'', JArray [JString ''10% off coffee''])])
      else if s = smart_receipt_extra_reply then
        Some (JObject [(''next_best_item'', JString ''Oat Milk''),
                       (''loyalty_incentive_text'', JString ''Earn double points!''),
                       (''coupons'', JArray [JString ''10% off coffee'']),
                       (''confidence'', JFloat (Finite (9 / 10)))])
      else if s = vibe_reply then
        Some (JObject [(''shopping_persona'', JString ''Green Flag''),
                       (''key_behavioral_metrics'', JObject [(''return_rate'', JFloat (Finite (1 / 20)))]),
                       (''key_purchase_metrics'', JObject [(''total_spend'', JInt 350)]),
                       (''color_palette_hints'', JArray [JString ''#6A5ACD''])])
      else if s = brand_voice_reply ''72'' then Some (brand_voice_object (JInt 72))
      else if s = brand_voice_reply ''150'' then Some (brand_voice_object (JInt 150))
      else if s = brand_voice_reply ''50.0'' then Some (brand_voice_object (JFloat (Finite 50)))
      else if s = brand_voice_reply ''\"50\"'' then Some (brand_voice_object (JString ''50''))
      else if s = brand_voice_reply ''true'' then Some (brand_voice_object (JBool True))
      else if s = brand_voice_partial_reply then
        Some (JObject [(''tone'', JString ''playful''), (''emoji_density'', JFloat (Finite (1 / 2))),
                       (''cta_style'', JString ''urgent''), (''body_style'', JString ''storytelling''),
                       (''new_campaign_body'', JString ''Shop now!'')])
      else if s = vibe_extra_reply then
        Some (JObject [(''shopping_persona'', JString ''Green Flag''),
                       (''key_behavioral_metrics'', JObject []),
                       (''key_purchase_metrics'', JObject []),
                       (''color_palette_hints'', JArray []),
                       (''notes'', JNull)])
      else if s = brand_voice_extra_reply then
        Some (JObject [(''language'', JString ''en''), (''tone'', JString ''playful''),
                       (''emoji_density'', JFloat (Finite (1 / 2))),
                       (''cta_style'', JString ''urgent''), (''body_style'', JString ''storytelling''),
                       (''predicted_score'', JInt 72), (''new_campaign_body'', JString ''Shop now!'')])
      else if s = brand_voice_nan_reply then
        Some (JObject [(''tone'', JString ''playful''), (''emoji_density'', JFloat NaN),
                       (''cta_style'', JString ''urgent''), (''body_style'', JString ''storytelling''),
                       (''predicted_score'', JInt 72), (''new_campaign_body'', JString ''Shop now!'')])
      else if s = ''NaN'' then Some (JFloat NaN)
      else if s = ''[1, 2]'' then Some (JArray [JInt 1, JInt 2])
      else None)"

definition stub_lib :: pylib where
  "stub_lib =
     \<lparr>loads = stub_loads,
      str_as_int = (\<lambda>s. if s = ''50'' then Some 50 else None),
      str_as_float = (\<lambda>s. if s = ''50'' then Some (Finite 50) else None),
      int_as_float = (\<lambda>i. if \<bar>i\<bar> \<le> 2 ^ 53 then Some (Finite (of_int i)) else None)\<rparr>"

definition stub_service :: "string \<Rightarrow> AIService" where
  "stub_service reply =
     \<lparr>llm = (\<lambda>prompt. Inr reply),
      vibe_profiler_prompt = \<lparr>template = vibe_profiler_text\<rparr>,
      brand_voice_cloner_prompt = \<lparr>template = brand_voice_cloner_text\<rparr>,
      smart_receipt_recommender_prompt = \<lparr>template = smart_receipt_recommender_text\<rparr>\<rparr>"

text \<open>
  Python's \<^verbatim>\<open>str\<close> of a dict whose keys and values are strings without quotes or
  backslashes.
\<close>

definition stub_str :: "(string \<times> string) list \<Rightarrow> string" where
  "stub_str kvs =
     ''{'' @
     join '', '' (map (\<lambda>(k, v). [CHR 0x27] @ k @ [CHR 0x27] @ '': '' @ [CHR 0x27] @ v @ [CHR 0x27]) kvs) @
     ''}''"

definition fresh :: "AIService \<Rightarrow> runtime" where
  "fresh S = \<lparr>self = S, requests = [], logging = []\<rparr>"

section \<open>Rendering the prompts\<close>

text \<open>
  A stretch of template text without braces is copied as it is, a doubled brace gives
  one brace, and the four placeholders of the service are read as fields.
\<close>

lemma scan_Text_plain:
  "CHR ''{'' \<notin> set xs \<Longrightarrow> CHR ''}'' \<notin> set xs \<Longrightarrow> scan Text (xs @ r) = map Ch xs @ scan Text r"
  by (induction xs) auto

lemma scan_Text_plain_end:
  "CHR ''{'' \<notin> set xs \<Longrightarrow> CHR ''}'' \<notin> set xs \<Longrightarrow> scan Text xs = map Ch xs"
  using scan_Text_plain [of xs "[]"] by simp

lemma scan_Text_lbrace: "scan Text (''{{'' @ r) = map Ch ''{'' @ scan Text r"
  by simp

lemma scan_Text_rbrace: "scan Text (''}}'' @ r) = map Ch ''}'' @ scan Text r"
  by simp

lemma scan_fields:
  "scan Text (''{transaction_summary}'' @ r) = Field ''transaction_summary'' # scan Text r"
  "scan Text (''{campaign_texts}'' @ r) = Field ''campaign_texts'' # scan Text r"
  "scan Text (''{current_basket_items}'' @ r) = Field ''current_basket_items'' # scan Text r"
  "scan Text (''{past_purchase_patterns}'' @ r) = Field ''past_purchase_patterns'' # scan Text r"
  by simp_all

lemmas scan_rules = scan_Text_plain scan_Text_plain_end scan_Text_lbrace scan_Text_rbrace scan_fields

lemma scan_vibe_profiler_text:
  "scan Text vibe_profiler_text =
     map Ch vibe_profiler_head @ Field ''transaction_summary'' # map Ch vibe_profiler_tail"
  unfolding vibe_profiler_text_def vibe_profiler_head_def vibe_profiler_tail_def
  by (simp add: scan_rules del: append.simps list.map)

lemma scan_brand_voice_cloner_text:
  "scan Text brand_voice_cloner_text =
     map Ch brand_voice_cloner_head @ Field ''campaign_texts'' # map Ch brand_voice_cloner_tail"
  unfolding brand_voice_cloner_text_def brand_voice_cloner_head_def brand_voice_cloner_tail_def
  by (simp add: scan_rules del: append.simps list.map)

lemma scan_smart_receipt_recommender_text:
  "scan Text smart_receipt_recommender_text =
     map Ch smart_receipt_recommender_head @ Field ''current_basket_items'' #
     map Ch smart_receipt_recommender_middle @ Field ''past_purchase_patterns'' #
     map Ch smart_receipt_recommender_tail"
  unfolding smart_receipt_recommender_text_def smart_receipt_recommender_head_def
    smart_receipt_recommender_middle_def smart_receipt_recommender_tail_def
  by (simp add: scan_rules del: append.simps list.map)

lemma substitute_map_Ch:
  "substitute kw (map Ch xs @ ps) =
     (case substitute kw ps of Inl e \<Rightarrow> Inl e | Inr r \<Rightarrow> Inr (xs @ r))"
  by (induction xs) (auto split: sum.splits)

lemma substitute_map_Ch_end: "substitute kw (map Ch xs) = Inr xs"
  using substitute_map_Ch [of kw xs "[]"] by simp

lemma format_vibe_profiler:
  "format \<lparr>template = vibe_profiler_text\<rparr> kw =
     (case map_of kw ''transaction_summary'' of
        None \<Rightarrow> Inl (KeyError ''transaction_summary'')
      | Some v \<Rightarrow> Inr (vibe_profiler_head @ v @ vibe_profiler_tail))"
  by (simp add: format_def scan_vibe_profiler_text substitute_map_Ch substitute_map_Ch_end
      split: option.splits)

lemma format_brand_voice_cloner:
  "format \<lparr>template = brand_voice_cloner_text\<rparr> kw =
     (case map_of kw ''campaign_texts'' of
        None \<Rightarrow> Inl (KeyError ''campaign_texts'')
      | Some v \<Rightarrow> Inr (brand_voice_cloner_head @ v @ brand_voice_cloner_tail))"
  by (simp add: format_def scan_brand_voice_cloner_text substitute_map_Ch substitute_map_Ch_end
      split: option.splits)

lemma format_smart_receipt_recommender:
  "format \<lparr>template = smart_receipt_recommender_text\<rparr> kw =
     (case map_of kw ''current_basket_items'' of
        None \<Rightarrow> Inl (KeyError ''current_basket_items'')
      | Some a \<Rightarrow>
          (case map_of kw ''past_purchase_patterns'' of
             None \<Rightarrow> Inl (KeyError ''past_purchase_patterns'')
           | Some b \<Rightarrow>
               Inr (smart_receipt_recommender_head @ a @ smart_receipt_recommender_middle @ b @
                    smart_receipt_recommender_tail)))"
  by (simp add: format_def scan_smart_receipt_recommender_text substitute_map_Ch
      substitute_map_Ch_end split: option.splits)

lemma from_template_texts:
  "from_template vibe_profiler_text = Inr \<lparr>template = vibe_profiler_text\<rparr>"
  "from_template brand_voice_cloner_text = Inr \<lparr>template = brand_voice_cloner_text\<rparr>"
  "from_template smart_receipt_recommender_text = Inr \<lparr>template = smart_receipt_recommender_text\<rparr>"
  by (auto simp: from_template_def scan_vibe_profiler_text scan_brand_voice_cloner_text
      scan_smart_receipt_recommender_text)

lemma AIService_init_Inr:
  "AIService_init h =
     Inr \<lparr>llm = h, vibe_profiler_prompt = \<lparr>template = vibe_profiler_text\<rparr>,
          brand_voice_cloner_prompt = \<lparr>template = brand_voice_cloner_text\<rparr>,
          smart_receipt_recommender_prompt = \<lparr>template = smart_receipt_recommender_text\<rparr>\<rparr>"
  by (simp add: AIService_init_def from_template_texts)

section \<open>Field validators\<close>

lemma validate_str_errors: "validate_str v \<noteq> Inl []"
  by (cases v) auto

lemma float_as_int_errors: "float_as_int f \<noteq> Inl []"
  by (auto simp: float_as_int_def split: pyfloat.splits)

lemma validate_int_errors: "validate_int L ge le v \<noteq> Inl []"
  by (cases v) (auto simp: validate_int_def float_as_int_errors split: sum.splits option.splits)

lemma validate_float_errors: "validate_float L v \<noteq> Inl []"
  by (cases v) (auto split: option.splits)

lemma validate_dict_str_any_errors: "validate_dict_str_any v \<noteq> Inl []"
  by (cases v) auto

lemma validate_items_errors: "validate_items i xs \<noteq> Inl []"
proof (induction xs arbitrary: i)
  case Nil
  show ?case by simp
next
  case (Cons x xs)
  from Cons [of "Suc i"] validate_str_errors [of x] show ?case
    by (auto split: sum.splits)
qed

lemma validate_list_str_errors: "validate_list_str v \<noteq> Inl []"
  by (cases v) (auto simp: validate_items_errors)

lemma validate_items_strings: "validate_items i (map JString cs) = Inr cs"
  by (induction cs arbitrary: i) auto

lemma validate_int_in_range:
  "lo \<le> n \<Longrightarrow> n \<le> hi \<Longrightarrow> validate_int L (Some lo) (Some hi) (JInt n) = Inr n"
  by (simp add: validate_int_def)

lemma validate_int_out_of_range:
  "n < lo \<or> hi < n \<Longrightarrow>
   validate_int L (Some lo) (Some hi) (JInt n) =
     Inl [([], if hi < n then LessThanEqual else GreaterThanEqual)]"
  by (auto simp: validate_int_def)

section \<open>Fields of a model\<close>

lemma isl_required: "isl (required n v kw) \<longleftrightarrow> rejected n v kw"
  by (auto simp: required_def rejected_def split: option.splits sum.splits)

lemma named_fields_append: "named_fields (a @ b) = named_fields a \<union> named_fields b"
  by (auto simp: named_fields_def)

lemma named_fields_located:
  "es \<noteq> [] \<Longrightarrow> named_fields (map (\<lambda>(loc, t). (LField n # loc, t)) es) = {n}"
  by (cases es) (auto simp: named_fields_def)

lemma named_fields_required:
  assumes "\<And>x. v x \<noteq> Inl []"
  shows "named_fields (errors_of (required n v kw)) = (if rejected n v kw then {n} else {})"
proof (cases "map_of kw n")
  case None
  then show ?thesis
    by (auto simp: required_def rejected_def errors_of_def named_fields_def)
next
  case (Some x)
  show ?thesis
  proof (cases "v x")
    case (Inl es)
    with assms [of x] have "es \<noteq> []" by auto
    with Some Inl show ?thesis
      by (simp add: required_def rejected_def errors_of_def named_fields_located)
  next
    case (Inr y)
    with Some show ?thesis
      by (simp add: required_def rejected_def errors_of_def named_fields_def)
  qed
qed

lemma named_fields_Nil: "named_fields [] = {}"
  by (simp add: named_fields_def)

lemma named_fields_rejected:
  assumes "\<And>x. v x \<noteq> Inl []"
  shows "named_fields (errors_of (required n v kw)) = {f. f = n \<and> rejected f v kw}"
  using named_fields_required [of v n kw, OF assms] by auto

lemma errors_of_also_field: "errors_of (also_field f x) = errors_of f @ errors_of x"
  by (auto simp: errors_of_def also_field_def split: sum.splits)

lemma isl_also_field: "isl (also_field f x) \<longleftrightarrow> isl f \<or> isl x"
  by (auto simp: also_field_def split: sum.splits)

lemma also_field_Inr [simp]: "also_field (Inr g) (Inr y) = Inr (g y)"
  by (simp add: also_field_def)

lemma errors_of_Inr [simp]: "errors_of (Inr g) = []"
  by (simp add: errors_of_def)

lemma errors_of_Inl [simp]: "errors_of (Inl es) = es"
  by (simp add: errors_of_def)

section \<open>The three models\<close>

lemma named_fields_VibeReportOutput:
  "named_fields (errors_of (new_VibeReportOutput L kw)) = VibeReportOutput_rejected kw"
  unfolding new_VibeReportOutput_def VibeReportOutput_rejected_def errors_of_also_field named_fields_append
  by (simp add: named_fields_rejected named_fields_Nil validate_str_errors validate_dict_str_any_errors validate_list_str_errors)

lemma named_fields_BrandVoiceOutput:
  "named_fields (errors_of (new_BrandVoiceOutput L kw)) = BrandVoiceOutput_rejected L kw"
  unfolding new_BrandVoiceOutput_def BrandVoiceOutput_rejected_def errors_of_also_field named_fields_append
  by (simp add: named_fields_rejected named_fields_Nil validate_str_errors validate_float_errors validate_int_errors)

lemma named_fields_SmartReceiptOutput:
  "named_fields (errors_of (new_SmartReceiptOutput L kw)) = SmartReceiptOutput_rejected kw"
  unfolding new_SmartReceiptOutput_def SmartReceiptOutput_rejected_def errors_of_also_field named_fields_append
  by (simp add: named_fields_rejected named_fields_Nil validate_str_errors validate_list_str_errors)

lemma isl_VibeReportOutput:
  "isl (new_VibeReportOutput L kw) \<longleftrightarrow> VibeReportOutput_rejected kw \<noteq> {}"
  by (auto simp: new_VibeReportOutput_def VibeReportOutput_rejected_def isl_also_field isl_required)

lemma isl_BrandVoiceOutput:
  "isl (new_BrandVoiceOutput L kw) \<longleftrightarrow> BrandVoiceOutput_rejected L kw \<noteq> {}"
  by (auto simp: new_BrandVoiceOutput_def BrandVoiceOutput_rejected_def isl_also_field isl_required)

lemma isl_SmartReceiptOutput:
  "isl (new_SmartReceiptOutput L kw) \<longleftrightarrow> SmartReceiptOutput_rejected kw \<noteq> {}"
  by (auto simp: new_SmartReceiptOutput_def SmartReceiptOutput_rejected_def isl_also_field isl_required)


lemma new_VibeReportOutput_valid:
  "map_of kw ''shopping_persona'' = Some (JString persona) \<Longrightarrow>
   map_of kw ''key_behavioral_metrics'' = Some (JObject bm) \<Longrightarrow>
   map_of kw ''key_purchase_metrics'' = Some (JObject pm) \<Longrightarrow>
   map_of kw ''color_palette_hints'' = Some (JArray (map JString hints)) \<Longrightarrow>
   new_VibeReportOutput L kw =
     Inr \<lparr>shopping_persona = persona, key_behavioral_metrics = bm, key_purchase_metrics = pm,
          color_palette_hints = hints\<rparr>"
  by (simp add: new_VibeReportOutput_def required_def validate_items_strings)

lemma new_BrandVoiceOutput_valid:
  "map_of kw ''tone'' = Some (JString t) \<Longrightarrow>
   map_of kw ''emoji_density'' = Some (JFloat d) \<Longrightarrow>
   map_of kw ''cta_style'' = Some (JString c) \<Longrightarrow>
   map_of kw ''body_style'' = Some (JString b) \<Longrightarrow>
   map_of kw ''predicted_score'' = Some v \<Longrightarrow>
   validate_int L (Some 0) (Some 100) v = Inr n \<Longrightarrow>
   map_of kw ''new_campaign_body'' = Some (JString body) \<Longrightarrow>
   new_BrandVoiceOutput L kw =
     Inr \<lparr>tone = t, emoji_density = d, cta_style = c, body_style = b, predicted_score = n,
          new_campaign_body = body\<rparr>"
  by (simp add: new_BrandVoiceOutput_def required_def)

lemma new_BrandVoiceOutput_score:
  "map_of kw ''tone'' = Some (JString t) \<Longrightarrow>
   map_of kw ''emoji_density'' = Some (JFloat d) \<Longrightarrow>
   map_of kw ''cta_style'' = Some (JString c) \<Longrightarrow>
   map_of kw ''body_style'' = Some (JString b) \<Longrightarrow>
   map_of kw ''predicted_score'' = Some v \<Longrightarrow>
   validate_int L (Some 0) (Some 100) v = Inl es \<Longrightarrow>
   map_of kw ''new_campaign_body'' = Some (JString body) \<Longrightarrow>
   new_BrandVoiceOutput L kw = Inl (map (\<lambda>(loc, t). (LField ''predicted_score'' # loc, t)) es)"
  by (simp add: new_BrandVoiceOutput_def required_def also_field_def)

lemma new_SmartReceiptOutput_valid:
  "map_of kw ''next_best_item'' = Some (JString item) \<Longrightarrow>
   map_of kw ''loyalty_incentive_text'' = Some (JString incentive) \<Longrightarrow>
   map_of kw ''coupons'' = Some (JArray (map JString cs)) \<Longrightarrow>
   new_SmartReceiptOutput L kw =
     Inr \<lparr>next_best_item = item, loyalty_incentive_text = incentive, coupons = cs\<rparr>"
  by (simp add: new_SmartReceiptOutput_def required_def validate_items_strings)

lemma map_of_declared:
  "map_of (filter (\<lambda>(k, v). k \<in> A) kw) f = (if f \<in> A then map_of kw f else None)"
  by (induction kw) auto

lemma required_declared:
  "n \<in> A \<Longrightarrow> required n v (filter (\<lambda>(k, v). k \<in> A) kw) = required n v kw"
  by (simp add: required_def map_of_declared)

lemma new_VibeReportOutput_declared:
  "new_VibeReportOutput L (filter (\<lambda>(k, v). k \<in> set VibeReportOutput_fields) kw) =
   new_VibeReportOutput L kw"
proof -
  have
    "''shopping_persona'' \<in> set VibeReportOutput_fields"
    "''key_behavioral_metrics'' \<in> set VibeReportOutput_fields"
    "''key_purchase_metrics'' \<in> set VibeReportOutput_fields"
    "''color_palette_hints'' \<in> set VibeReportOutput_fields"
    by (simp_all add: VibeReportOutput_fields_def)
  then show ?thesis
    by (simp add: new_VibeReportOutput_def required_declared)
qed

lemma new_BrandVoiceOutput_declared:
  "new_BrandVoiceOutput L (filter (\<lambda>(k, v). k \<in> set BrandVoiceOutput_fields) kw) =
   new_BrandVoiceOutput L kw"
proof -
  have
    "''tone'' \<in> set BrandVoiceOutput_fields"
    "''emoji_density'' \<in> set BrandVoiceOutput_fields"
    "''cta_style'' \<in> set BrandVoiceOutput_fields"
    "''body_style'' \<in> set BrandVoiceOutput_fields"
    "''predicted_score'' \<in> set BrandVoiceOutput_fields"
    "''new_campaign_body'' \<in> set BrandVoiceOutput_fields"
    by (simp_all add: BrandVoiceOutput_fields_def)
  then show ?thesis
    by (simp add: new_BrandVoiceOutput_def required_declared)
qed

lemma new_SmartReceiptOutput_declared:
  "new_SmartReceiptOutput L (filter (\<lambda>(k, v). k \<in> set SmartReceiptOutput_fields) kw) =
   new_SmartReceiptOutput L kw"
proof -
  have
    "''next_best_item'' \<in> set SmartReceiptOutput_fields"
    "''loyalty_incentive_text'' \<in> set SmartReceiptOutput_fields"
    "''coupons'' \<in> set SmartReceiptOutput_fields"
    by (simp_all add: SmartReceiptOutput_fields_def)
  then show ?thesis
    by (simp add: new_SmartReceiptOutput_def required_declared)
qed

lemma float_as_int_integral:
  "- (2 ^ 63) < n \<Longrightarrow> n < 2 ^ 63 \<Longrightarrow> float_as_int (Finite (of_int n)) = Inr n"
  by (simp add: float_as_int_def)

lemma validate_int_float:
  "0 \<le> n \<Longrightarrow> n \<le> 100 \<Longrightarrow> validate_int L (Some 0) (Some 100) (JFloat (Finite (of_int n))) = Inr n"
  by (simp add: validate_int_def float_as_int_integral)

lemma validate_int_string:
  "str_as_int L s = Some n \<Longrightarrow> 0 \<le> n \<Longrightarrow> n \<le> 100 \<Longrightarrow>
   validate_int L (Some 0) (Some 100) (JString s) = Inr n"
  by (simp add: validate_int_def)

section \<open>One call of the shared helper\<close>

lemma call_ai_model_self: "self (snd (call_ai_model L P i om w)) = self w"
  by (simp add: call_ai_model_def invoke_def log_to_def Let_def
      split: sum.splits option.splits json.splits)

lemma call_ai_model_unformatted:
  "format P i = Inl e \<Longrightarrow> call_ai_model L P i om w = (Inl e, log_to (LogError e) w)"
  by (simp add: call_ai_model_def)

lemma call_ai_model_requests:
  "format P i = Inr p \<Longrightarrow> requests (snd (call_ai_model L P i om w)) = requests w @ [p]"
  by (simp add: call_ai_model_def invoke_def log_to_def Let_def
      split: sum.splits option.splits json.splits)

lemma call_ai_model_same_service:
  "self w' = self w \<Longrightarrow> fst (call_ai_model L P i om w') = fst (call_ai_model L P i om w)"
  by (simp add: call_ai_model_def invoke_def log_to_def Let_def
      split: sum.splits option.splits json.splits)

lemma call_ai_model_not_KeyError:
  "format P i = Inr p \<Longrightarrow> fst (call_ai_model L P i om w) \<noteq> Inl (KeyError k)"
  by (simp add: call_ai_model_def invoke_def log_to_def Let_def
      split: sum.splits option.splits json.splits)

lemma call_ai_model_undecodable:
  "format P i = Inr p \<Longrightarrow> llm (self w) p = Inr reply \<Longrightarrow> loads L reply = None \<Longrightarrow>
   fst (call_ai_model L P i om w) = Inl JSONDecodeError"
  by (simp add: call_ai_model_def invoke_def log_to_def Let_def)

lemma call_ai_model_not_object:
  "format P i = Inr p \<Longrightarrow> llm (self w) p = Inr reply \<Longrightarrow> loads L reply = Some j \<Longrightarrow>
   \<forall>kw. j \<noteq> JObject kw \<Longrightarrow> fst (call_ai_model L P i om w) = Inl TypeError"
  by (cases j) (simp_all add: call_ai_model_def invoke_def log_to_def Let_def)

lemma call_ai_model_valid:
  "format P i = Inr p \<Longrightarrow> llm (self w) p = Inr reply \<Longrightarrow> loads L reply = Some (JObject kw) \<Longrightarrow>
   om kw = Inr out \<Longrightarrow> fst (call_ai_model L P i om w) = Inr out"
  by (simp add: call_ai_model_def invoke_def log_to_def Let_def)

lemma call_ai_model_invalid:
  "format P i = Inr p \<Longrightarrow> llm (self w) p = Inr reply \<Longrightarrow> loads L reply = Some (JObject kw) \<Longrightarrow>
   om kw = Inl es \<Longrightarrow>
   fst (call_ai_model L P i om w) = Inl (ValidationError es) \<and>
   logging (snd (call_ai_model L P i om w)) =
     logging w @ [LogSending (take 200 p), LogReceived (take 200 reply),
                  LogValidationError es reply]"
  by (simp add: call_ai_model_def invoke_def log_to_def Let_def)

section \<open>A service built by the constructor\<close>

lemma init_llm: "AIService_init h = Inr S \<Longrightarrow> llm S = h"
  by (auto simp: AIService_init_Inr)

lemma init_vibe_profiler_prompt:
  "AIService_init h = Inr S \<Longrightarrow>
   format (vibe_profiler_prompt S) [(''transaction_summary'', s)] =
     Inr (vibe_profiler_head @ s @ vibe_profiler_tail)"
  by (auto simp: AIService_init_Inr format_vibe_profiler)

lemma init_brand_voice_cloner_prompt:
  "AIService_init h = Inr S \<Longrightarrow>
   format (brand_voice_cloner_prompt S) [(''campaign_texts'', s)] =
     Inr (brand_voice_cloner_head @ s @ brand_voice_cloner_tail)"
  by (auto simp: AIService_init_Inr format_brand_voice_cloner)

lemma init_smart_receipt_recommender_prompt:
  "AIService_init h = Inr S \<Longrightarrow>
   format (smart_receipt_recommender_prompt S)
     [(''current_basket_items'', a), (''past_purchase_patterns'', b)] =
     Inr (smart_receipt_recommender_head @ a @ smart_receipt_recommender_middle @ b @
          smart_receipt_recommender_tail)"
  by (auto simp: AIService_init_Inr format_smart_receipt_recommender)

lemmas init_prompts =
  init_vibe_profiler_prompt init_brand_voice_cloner_prompt init_smart_receipt_recommender_prompt

lemmas operations = get_vibe_report_def clone_brand_voice_def get_smart_receipt_recommendations_def

section \<open>The three operations on a reply\<close>

lemma get_vibe_report_reply:
  assumes init: "AIService_init h = Inr (self w)"
    and reply: "h (vibe_profiler_head @ transaction_summary @ vibe_profiler_tail) = Inr reply"
  shows "loads L reply = None \<Longrightarrow> fst (get_vibe_report L transaction_summary w) = Inl JSONDecodeError"
    and "loads L reply = Some j \<Longrightarrow> \<forall>kw. j \<noteq> JObject kw \<Longrightarrow>
         fst (get_vibe_report L transaction_summary w) = Inl TypeError"
    and "loads L reply = Some (JObject kw) \<Longrightarrow> new_VibeReportOutput L kw = Inr out \<Longrightarrow>
         fst (get_vibe_report L transaction_summary w) = Inr out"
    and "loads L reply = Some (JObject kw) \<Longrightarrow> new_VibeReportOutput L kw = Inl es \<Longrightarrow>
         fst (get_vibe_report L transaction_summary w) = Inl (ValidationError es) \<and>
         logging (snd (get_vibe_report L transaction_summary w)) =
           logging w @
           [LogSending (take 200 (vibe_profiler_head @ transaction_summary @ vibe_profiler_tail)),
            LogReceived (take 200 reply), LogValidationError es reply]"
proof -
  note f = init_vibe_profiler_prompt [OF init]
  have l: "llm (self w) (vibe_profiler_head @ transaction_summary @ vibe_profiler_tail) = Inr reply"
    using reply init_llm [OF init] by simp
  show "loads L reply = None \<Longrightarrow> fst (get_vibe_report L transaction_summary w) = Inl JSONDecodeError"
    unfolding get_vibe_report_def by (rule call_ai_model_undecodable [OF f l])
  show "loads L reply = Some j \<Longrightarrow> \<forall>kw. j \<noteq> JObject kw \<Longrightarrow>
         fst (get_vibe_report L transaction_summary w) = Inl TypeError"
    unfolding get_vibe_report_def by (rule call_ai_model_not_object [OF f l])
  show "loads L reply = Some (JObject kw) \<Longrightarrow> new_VibeReportOutput L kw = Inr out \<Longrightarrow>
         fst (get_vibe_report L transaction_summary w) = Inr out"
    unfolding get_vibe_report_def by (rule call_ai_model_valid [OF f l])
  show "loads L reply = Some (JObject kw) \<Longrightarrow> new_VibeReportOutput L kw = Inl es \<Longrightarrow>
         fst (get_vibe_report L transaction_summary w) = Inl (ValidationError es) \<and>
         logging (snd (get_vibe_report L transaction_summary w)) =
           logging w @
           [LogSending (take 200 (vibe_profiler_head @ transaction_summary @ vibe_profiler_tail)),
            LogReceived (take 200 reply), LogValidationError es reply]"
    unfolding get_vibe_report_def by (rule call_ai_model_invalid [OF f l])
qed

lemma clone_brand_voice_reply:
  assumes init: "AIService_init h = Inr (self w)"
    and reply: "h (brand_voice_cloner_head @ join ''\<newline>'' campaign_texts @ brand_voice_cloner_tail) = Inr reply"
  shows "loads L reply = None \<Longrightarrow> fst (clone_brand_voice L campaign_texts w) = Inl JSONDecodeError"
    and "loads L reply = Some j \<Longrightarrow> \<forall>kw. j \<noteq> JObject kw \<Longrightarrow>
         fst (clone_brand_voice L campaign_texts w) = Inl TypeError"
    and "loads L reply = Some (JObject kw) \<Longrightarrow> new_BrandVoiceOutput L kw = Inr out \<Longrightarrow>
         fst (clone_brand_voice L campaign_texts w) = Inr out"
    and "loads L reply = Some (JObject kw) \<Longrightarrow> new_BrandVoiceOutput L kw = Inl es \<Longrightarrow>
         fst (clone_brand_voice L campaign_texts w) = Inl (ValidationError es) \<and>
         logging (snd (clone_brand_voice L campaign_texts w)) =
           logging w @
           [LogSending (take 200 (brand_voice_cloner_head @ join ''\<newline>'' campaign_texts @ brand_voice_cloner_tail)),
            LogReceived (take 200 reply), LogValidationError es reply]"
proof -
  note f = init_brand_voice_cloner_prompt [OF init]
  have l: "llm (self w) (brand_voice_cloner_head @ join ''\<newline>'' campaign_texts @ brand_voice_cloner_tail) = Inr reply"
    using reply init_llm [OF init] by simp
  show "loads L reply = None \<Longrightarrow> fst (clone_brand_voice L campaign_texts w) = Inl JSONDecodeError"
    unfolding clone_brand_voice_def by (rule call_ai_model_undecodable [OF f l])
  show "loads L reply = Some j \<Longrightarrow> \<forall>kw. j \<noteq> JObject kw \<Longrightarrow>
         fst (clone_brand_voice L campaign_texts w) = Inl TypeError"
    unfolding clone_brand_voice_def by (rule call_ai_model_not_object [OF f l])
  show "loads L reply = Some (JObject kw) \<Longrightarrow> new_BrandVoiceOutput L kw = Inr out \<Longrightarrow>
         fst (clone_brand_voice L campaign_texts w) = Inr out"
    unfolding clone_brand_voice_def by (rule call_ai_model_valid [OF f l])
  show "loads L reply = Some (JObject kw) \<Longrightarrow> new_BrandVoiceOutput L kw = Inl es \<Longrightarrow>
         fst (clone_brand_voice L campaign_texts w) = Inl (ValidationError es) \<and>
         logging (snd (clone_brand_voice L campaign_texts w)) =
           logging w @
           [LogSending (take 200 (brand_voice_cloner_head @ join ''\<newline>'' campaign_texts @ brand_voice_cloner_tail)),
            LogReceived (take 200 reply), LogValidationError es reply]"
    unfolding clone_brand_voice_def by (rule call_ai_model_invalid [OF f l])
qed

lemma get_smart_receipt_recommendations_reply:
  assumes init: "AIService_init h = Inr (self w)"
    and reply: "h (smart_receipt_recommender_head @ join '', '' current_basket_items @ smart_receipt_recommender_middle @ str_of past_purchase_patterns @ smart_receipt_recommender_tail) = Inr reply"
  shows "loads L reply = None \<Longrightarrow> fst (get_smart_receipt_recommendations L str_of current_basket_items past_purchase_patterns w) = Inl JSONDecodeError"
    and "loads L reply = Some j \<Longrightarrow> \<forall>kw. j \<noteq> JObject kw \<Longrightarrow>
         fst (get_smart_receipt_recommendations L str_of current_basket_items past_purchase_patterns w) = Inl TypeError"
    and "loads L reply = Some (JObject kw) \<Longrightarrow> new_SmartReceiptOutput L kw = Inr out \<Longrightarrow>
         fst (get_smart_receipt_recommendations L str_of current_basket_items past_purchase_patterns w) = Inr out"
    and "loads L reply = Some (JObject kw) \<Longrightarrow> new_SmartReceiptOutput L kw = Inl es \<Longrightarrow>
         fst (get_smart_receipt_recommendations L str_of current_basket_items past_purchase_patterns w) = Inl (ValidationError es) \<and>
         logging (snd (get_smart_receipt_recommendations L str_of current_basket_items past_purchase_patterns w)) =
           logging w @
           [LogSending (take 200 (smart_receipt_recommender_head @ join '', '' current_basket_items @ smart_receipt_recommender_middle @ str_of past_purchase_patterns @ smart_receipt_recommender_tail)),
            LogReceived (take 200 reply), LogValidationError es reply]"
proof -
  note f = init_smart_receipt_recommender_prompt [OF init]
  have l: "llm (self w) (smart_receipt_recommender_head @ join '', '' current_basket_items @ smart_receipt_recommender_middle @ str_of past_purchase_patterns @ smart_receipt_recommender_tail) = Inr reply"
    using reply init_llm [OF init] by simp
  show "loads L reply = None \<Longrightarrow> fst (get_smart_receipt_recommendations L str_of current_basket_items past_purchase_patterns w) = Inl JSONDecodeError"
    unfolding get_smart_receipt_recommendations_def by (rule call_ai_model_undecodable [OF f l])
  show "loads L reply = Some j \<Longrightarrow> \<forall>kw. j \<noteq> JObject kw \<Longrightarrow>
         fst (get_smart_receipt_recommendations L str_of current_basket_items past_purchase_patterns w) = Inl TypeError"
    unfolding get_smart_receipt_recommendations_def by (rule call_ai_model_not_object [OF f l])
  show "loads L reply = Some (JObject kw) \<Longrightarrow> new_SmartReceiptOutput L kw = Inr out \<Longrightarrow>
         fst (get_smart_receipt_recommendations L str_of current_basket_items past_purchase_patterns w) = Inr out"
    unfolding get_smart_receipt_recommendations_def by (rule call_ai_model_valid [OF f l])
  show "loads L reply = Some (JObject kw) \<Longrightarrow> new_SmartReceiptOutput L kw = Inl es \<Longrightarrow>
         fst (get_smart_receipt_recommendations L str_of current_basket_items past_purchase_patterns w) = Inl (ValidationError es) \<and>
         logging (snd (get_smart_receipt_recommendations L str_of current_basket_items past_purchase_patterns w)) =
           logging w @
           [LogSending (take 200 (smart_receipt_recommender_head @ join '', '' current_basket_items @ smart_receipt_recommender_middle @ str_of past_purchase_patterns @ smart_receipt_recommender_tail)),
            LogReceived (take 200 reply), LogValidationError es reply]"
    unfolding get_smart_receipt_recommendations_def by (rule call_ai_model_invalid [OF f l])
qed

lemma stub_init: "AIService_init (\<lambda>prompt. Inr reply) = Inr (self (fresh (stub_service reply)))"
  by (simp add: AIService_init_Inr stub_service_def fresh_def)

lemma stub_lib_simps:
  "loads stub_lib = stub_loads"
  "str_as_int stub_lib ''50'' = Some 50"
  by (simp_all add: stub_lib_def)

lemmas stub_replies =
  smart_receipt_reply_def smart_receipt_extra_reply_def vibe_reply_def vibe_extra_reply_def
  brand_voice_reply_def brand_voice_extra_reply_def brand_voice_partial_reply_def
  brand_voice_nan_reply_def

lemma stub_loads_replies:
  "stub_loads smart_receipt_reply =
     Some (JObject [(''next_best_item'', JString ''Oat Milk''),
                    (''loyalty_incentive_text'', JString ''Earn double points!''),
                    (''coupons'', JArray [JString ''10% off coffee''])])"
  "stub_loads smart_receipt_extra_reply =
     Some (JObject [(''next_best_item'', JString ''Oat Milk''),
                    (''loyalty_incentive_text'', JString ''Earn double points!''),
                    (''coupons'', JArray [JString ''10% off coffee'']),
                    (''confidence'', JFloat (Finite (9 / 10)))])"
  "stub_loads vibe_reply =
     Some (JObject [(''shopping_persona'', JString ''Green Flag''),
                    (''key_behavioral_metrics'', JObject [(''return_rate'', JFloat (Finite (1 / 20)))]),
                    (''key_purchase_metrics'', JObject [(''total_spend'', JInt 350)]),
                    (''color_palette_hints'', JArray [JString ''#6A5ACD''])])"
  "stub_loads vibe_extra_reply =
     Some (JObject [(''shopping_persona'', JString ''Green Flag''),
                    (''key_behavioral_metrics'', JObject []),
                    (''key_purchase_metrics'', JObject []),
                    (''color_palette_hints'', JArray []),
                    (''notes'', JNull)])"
  "stub_loads (brand_voice_reply ''72'') = Some (brand_voice_object (JInt 72))"
  "stub_loads (brand_voice_reply ''150'') = Some (brand_voice_object (JInt 150))"
  "stub_loads (brand_voice_reply ''50.0'') = Some (brand_voice_object (JFloat (Finite 50)))"
  "stub_loads (brand_voice_reply ''\"50\"'') = Some (brand_voice_object (JString ''50''))"
  "stub_loads (brand_voice_reply ''true'') = Some (brand_voice_object (JBool True))"
  "stub_loads brand_voice_extra_reply =
     Some (JObject [(''language'', JString ''en''), (''tone'', JString ''playful''),
                    (''emoji_density'', JFloat (Finite (1 / 2))),
                    (''cta_style'', JString ''urgent''), (''body_style'', JString ''storytelling''),
                    (''predicted_score'', JInt 72), (''new_campaign_body'', JString ''Shop now!'')])"
  "stub_loads brand_voice_partial_reply =
     Some (JObject [(''tone'', JString ''playful''), (''emoji_density'', JFloat (Finite (1 / 2))),
                    (''cta_style'', JString ''urgent''), (''body_style'', JString ''storytelling''),
                    (''new_campaign_body'', JString ''Shop now!'')])"
  "stub_loads brand_voice_nan_reply =
     Some (JObject [(''tone'', JString ''playful''), (''emoji_density'', JFloat NaN),
                    (''cta_style'', JString ''urgent''), (''body_style'', JString ''storytelling''),
                    (''predicted_score'', JInt 72), (''new_campaign_body'', JString ''Shop now!'')])"
  "stub_loads ''NaN'' = Some (JFloat NaN)"
  "stub_loads ''[1, 2]'' = Some (JArray [JInt 1, JInt 2])"
  "stub_loads ''I can't help with that'' = None"
  by (simp_all add: stub_loads_def stub_replies)

section \<open>The claims\<close>

text \<open>
  C6. Rendering a prompt is textual interpolation between fixed texts: the prompt that
  \<open>get_vibe_report\<close> sends is the template's text with the summary in the place of
  the placeholder, as it is; \<open>clone_brand_voice\<close> puts there the campaign texts joined
  by newlines; \<open>get_smart_receipt_recommendations\<close> puts the basket items joined by
  \<^verbatim>\<open>", "\<close> and Python's \<^verbatim>\<open>str\<close> of the mapping.
\<close>

theorem prompt_rendering:
  assumes "AIService_init h = Inr (self w)"
  shows
    "requests (snd (get_vibe_report L transaction_summary w)) =
       requests w @ [vibe_profiler_head @ transaction_summary @ vibe_profiler_tail] \<and>
     requests (snd (clone_brand_voice L campaign_texts w)) =
       requests w @
       [brand_voice_cloner_head @ join ''\<newline>'' campaign_texts @ brand_voice_cloner_tail] \<and>
     requests (snd (get_smart_receipt_recommendations L str_of current_basket_items
                      past_purchase_patterns w)) =
       requests w @
       [smart_receipt_recommender_head @ join '', '' current_basket_items @
        smart_receipt_recommender_middle @ str_of past_purchase_patterns @
        smart_receipt_recommender_tail]"
  using assms by (simp add: operations call_ai_model_requests init_prompts)

theorem prompt_rendering_witness:
  "AIService_init (\<lambda>prompt. Inr vibe_reply) = Inr (self (fresh (stub_service vibe_reply))) \<and>
   requests (snd (get_vibe_report stub_lib ''Total spend: $350''
                    (fresh (stub_service vibe_reply)))) =
     [vibe_profiler_head @ ''Total spend: $350'' @ vibe_profiler_tail] \<and>
   requests (snd (clone_brand_voice stub_lib [''Shop now!'', ''Tap to shop!'']
                    (fresh (stub_service vibe_reply)))) =
     [brand_voice_cloner_head @ ''Shop now!\<newline>Tap to shop!'' @ brand_voice_cloner_tail] \<and>
   requests (snd (get_smart_receipt_recommendations stub_lib stub_str
                    [''Organic Coffee Beans'', ''Almond Milk'']
                    [(''last_purchase_category'', ''Beverages''), (''favorite_brand'', ''EcoBrew'')]
                    (fresh (stub_service vibe_reply)))) =
     [smart_receipt_recommender_head @ ''Organic Coffee Beans, Almond Milk'' @
      smart_receipt_recommender_middle @
      ''{'last_purchase_category': 'Beverages', 'favorite_brand': 'EcoBrew'}'' @
      smart_receipt_recommender_tail]"
proof -
  have init: "AIService_init (\<lambda>prompt. Inr vibe_reply) = Inr (self (fresh (stub_service vibe_reply)))"
    by (simp add: AIService_init_Inr stub_service_def fresh_def)
  have empty: "requests (fresh (stub_service vibe_reply)) = []"
    by (simp add: fresh_def)
  show ?thesis
    using init
      prompt_rendering [OF init, of stub_lib "''Total spend: $350''"
        "[''Shop now!'', ''Tap to shop!'']" stub_str "[''Organic Coffee Beans'', ''Almond Milk'']"
        "[(''last_purchase_category'', ''Beverages''), (''favorite_brand'', ''EcoBrew'')]"]
    by (simp add: empty stub_str_def)
qed

text \<open>
  C1. When the reply decodes to an object that has every field of the operation's
  output shape with a value of the declared type (a string, a float, an integer
  within 0 to 100, an object, a list of strings), the operation returns the record
  whose fields are those values, unchanged.
\<close>

theorem well_typed_reply_is_returned:
  assumes init: "AIService_init h = Inr (self w)"
  shows
    "(h (vibe_profiler_head @ transaction_summary @ vibe_profiler_tail) = Inr reply_v \<and>
      loads L reply_v = Some (JObject kw_v) \<and>
      map_of kw_v ''shopping_persona'' = Some (JString persona) \<and>
      map_of kw_v ''key_behavioral_metrics'' = Some (JObject bm) \<and>
      map_of kw_v ''key_purchase_metrics'' = Some (JObject pm) \<and>
      map_of kw_v ''color_palette_hints'' = Some (JArray (map JString hints)) \<longrightarrow>
      fst (get_vibe_report L transaction_summary w) =
        Inr \<lparr>shopping_persona = persona, key_behavioral_metrics = bm,
             key_purchase_metrics = pm, color_palette_hints = hints\<rparr>) \<and>
     (h (brand_voice_cloner_head @ join ''\<newline>'' campaign_texts @ brand_voice_cloner_tail) =
        Inr reply_b \<and>
      loads L reply_b = Some (JObject kw_b) \<and>
      map_of kw_b ''tone'' = Some (JString t) \<and>
      map_of kw_b ''emoji_density'' = Some (JFloat d) \<and>
      map_of kw_b ''cta_style'' = Some (JString c) \<and>
      map_of kw_b ''body_style'' = Some (JString b) \<and>
      map_of kw_b ''predicted_score'' = Some (JInt n) \<and> 0 \<le> n \<and> n \<le> 100 \<and>
      map_of kw_b ''new_campaign_body'' = Some (JString body) \<longrightarrow>
      fst (clone_brand_voice L campaign_texts w) =
        Inr \<lparr>tone = t, emoji_density = d, cta_style = c, body_style = b,
             predicted_score = n, new_campaign_body = body\<rparr>) \<and>
     (h (smart_receipt_recommender_head @ join '', '' current_basket_items @
         smart_receipt_recommender_middle @ str_of past_purchase_patterns @
         smart_receipt_recommender_tail) = Inr reply_s \<and>
      loads L reply_s = Some (JObject kw_s) \<and>
      map_of kw_s ''next_best_item'' = Some (JString item) \<and>
      map_of kw_s ''loyalty_incentive_text'' = Some (JString incentive) \<and>
      map_of kw_s ''coupons'' = Some (JArray (map JString cs)) \<longrightarrow>
      fst (get_smart_receipt_recommendations L str_of current_basket_items
             past_purchase_patterns w) =
        Inr \<lparr>next_best_item = item, loyalty_incentive_text = incentive, coupons = cs\<rparr>)"
proof (intro conjI impI; elim conjE)
  assume "h (vibe_profiler_head @ transaction_summary @ vibe_profiler_tail) = Inr reply_v"
    and "loads L reply_v = Some (JObject kw_v)"
    and "map_of kw_v ''shopping_persona'' = Some (JString persona)"
    and "map_of kw_v ''key_behavioral_metrics'' = Some (JObject bm)"
    and "map_of kw_v ''key_purchase_metrics'' = Some (JObject pm)"
    and "map_of kw_v ''color_palette_hints'' = Some (JArray (map JString hints))"
  then show "fst (get_vibe_report L transaction_summary w) =
      Inr \<lparr>shopping_persona = persona, key_behavioral_metrics = bm,
           key_purchase_metrics = pm, color_palette_hints = hints\<rparr>"
    by (intro get_vibe_report_reply(3) [OF init] new_VibeReportOutput_valid)
next
  assume "h (brand_voice_cloner_head @ join ''\<newline>'' campaign_texts @ brand_voice_cloner_tail) =
      Inr reply_b"
    and "loads L reply_b = Some (JObject kw_b)"
    and "map_of kw_b ''tone'' = Some (JString t)"
    and "map_of kw_b ''emoji_density'' = Some (JFloat d)"
    and "map_of kw_b ''cta_style'' = Some (JString c)"
    and "map_of kw_b ''body_style'' = Some (JString b)"
    and "map_of kw_b ''predicted_score'' = Some (JInt n)"
    and "0 \<le> n" and "n \<le> 100"
    and "map_of kw_b ''new_campaign_body'' = Some (JString body)"
  then show "fst (clone_brand_voice L campaign_texts w) =
      Inr \<lparr>tone = t, emoji_density = d, cta_style = c, body_style = b,
           predicted_score = n, new_campaign_body = body\<rparr>"
    by (intro clone_brand_voice_reply(3) [OF init]
        new_BrandVoiceOutput_valid [where v = "JInt n"] validate_int_in_range)
next
  assume "h (smart_receipt_recommender_head @ join '', '' current_basket_items @
         smart_receipt_recommender_middle @ str_of past_purchase_patterns @
         smart_receipt_recommender_tail) = Inr reply_s"
    and "loads L reply_s = Some (JObject kw_s)"
    and "map_of kw_s ''next_best_item'' = Some (JString item)"
    and "map_of kw_s ''loyalty_incentive_text'' = Some (JString incentive)"
    and "map_of kw_s ''coupons'' = Some (JArray (map JString cs))"
  then show "fst (get_smart_receipt_recommendations L str_of current_basket_items
             past_purchase_patterns w) =
      Inr \<lparr>next_best_item = item, loyalty_incentive_text = incentive, coupons = cs\<rparr>"
    by (intro get_smart_receipt_recommendations_reply(3) [OF init] new_SmartReceiptOutput_valid)
qed

theorem well_typed_reply_is_returned_witness:
  "fst (get_vibe_report stub_lib ''Total spend: $350'' (fresh (stub_service vibe_reply))) =
     Inr \<lparr>shopping_persona = ''Green Flag'',
          key_behavioral_metrics = [(''return_rate'', JFloat (Finite (1 / 20)))],
          key_purchase_metrics = [(''total_spend'', JInt 350)],
          color_palette_hints = [''#6A5ACD'']\<rparr> \<and>
   fst (clone_brand_voice stub_lib [''Shop now!'', ''Tap to shop!'']
          (fresh (stub_service (brand_voice_reply ''72'')))) =
     Inr \<lparr>tone = ''playful'', emoji_density = Finite (1 / 2), cta_style = ''urgent'',
          body_style = ''storytelling'', predicted_score = 72,
          new_campaign_body = ''Shop now!''\<rparr> \<and>
   fst (get_smart_receipt_recommendations stub_lib stub_str
          [''Organic Coffee Beans'', ''Almond Milk'']
          [(''last_purchase_category'', ''Beverages''), (''favorite_brand'', ''EcoBrew'')]
          (fresh (stub_service smart_receipt_reply))) =
     Inr \<lparr>next_best_item = ''Oat Milk'', loyalty_incentive_text = ''Earn double points!'',
          coupons = [''10% off coffee'']\<rparr>"
proof -
  have one: "fst (get_vibe_report stub_lib ''Total spend: $350'' (fresh (stub_service vibe_reply))) =
     Inr \<lparr>shopping_persona = ''Green Flag'',
          key_behavioral_metrics = [(''return_rate'', JFloat (Finite (1 / 20)))],
          key_purchase_metrics = [(''total_spend'', JInt 350)],
          color_palette_hints = [''#6A5ACD'']\<rparr>"
    using well_typed_reply_is_returned [where L = stub_lib and transaction_summary = "''Total spend: $350''"
          and reply_v = vibe_reply and hints = "[''#6A5ACD'']"
          and persona = "''Green Flag''"
          and bm = "[(''return_rate'', JFloat (Finite (1 / 20)))]"
          and pm = "[(''total_spend'', JInt 350)]"
          and kw_v = "[(''shopping_persona'', JString ''Green Flag''),
                       (''key_behavioral_metrics'', JObject [(''return_rate'', JFloat (Finite (1 / 20)))]),
                       (''key_purchase_metrics'', JObject [(''total_spend'', JInt 350)]),
                       (''color_palette_hints'', JArray [JString ''#6A5ACD''])]",
        OF stub_init [of vibe_reply], THEN conjunct1]
    by (simp add: stub_lib_simps stub_loads_replies)
  have two: "fst (clone_brand_voice stub_lib [''Shop now!'', ''Tap to shop!'']
          (fresh (stub_service (brand_voice_reply ''72'')))) =
     Inr \<lparr>tone = ''playful'', emoji_density = Finite (1 / 2), cta_style = ''urgent'',
          body_style = ''storytelling'', predicted_score = 72,
          new_campaign_body = ''Shop now!''\<rparr>"
    using well_typed_reply_is_returned [where L = stub_lib and campaign_texts = "[''Shop now!'', ''Tap to shop!'']"
          and reply_b = "brand_voice_reply ''72''" and n = 72
          and t = "''playful''" and d = "Finite (1 / 2)" and c = "''urgent''"
          and b = "''storytelling''" and body = "''Shop now!''"
          and kw_b = "[(''tone'', JString ''playful''), (''emoji_density'', JFloat (Finite (1 / 2))),
                       (''cta_style'', JString ''urgent''), (''body_style'', JString ''storytelling''),
                       (''predicted_score'', JInt 72), (''new_campaign_body'', JString ''Shop now!'')]",
        OF stub_init [of "brand_voice_reply ''72''"], THEN conjunct2, THEN conjunct1]
    by (simp add: stub_lib_simps stub_loads_replies brand_voice_object_def)
  have three: "fst (get_smart_receipt_recommendations stub_lib stub_str
          [''Organic Coffee Beans'', ''Almond Milk'']
          [(''last_purchase_category'', ''Beverages''), (''favorite_brand'', ''EcoBrew'')]
          (fresh (stub_service smart_receipt_reply))) =
     Inr \<lparr>next_best_item = ''Oat Milk'', loyalty_incentive_text = ''Earn double points!'',
          coupons = [''10% off coffee'']\<rparr>"
    using well_typed_reply_is_returned [where L = stub_lib and str_of = stub_str
          and current_basket_items = "[''Organic Coffee Beans'', ''Almond Milk'']"
          and past_purchase_patterns =
            "[(''last_purchase_category'', ''Beverages''), (''favorite_brand'', ''EcoBrew'')]"
          and reply_s = smart_receipt_reply and cs = "[''10% off coffee'']"
          and item = "''Oat Milk''" and incentive = "''Earn double points!''"
          and kw_s = "[(''next_best_item'', JString ''Oat Milk''),
                       (''loyalty_incentive_text'', JString ''Earn double points!''),
                       (''coupons'', JArray [JString ''10% off coffee''])]",
        OF stub_init [of smart_receipt_reply], THEN conjunct2, THEN conjunct2]
    by (simp add: stub_lib_simps stub_loads_replies)
  from one two three show ?thesis by simp
qed

text \<open>
  C3. A reply whose fields are all present and well typed but whose
  \<open>predicted_score\<close> is an integer outside 0 to 100 makes \<open>clone_brand_voice\<close> raise
  a validation error on that field (\<open>less_than_equal\<close> above 100,
  \<open>greater_than_equal\<close> below 0); no record is returned and the value is not clamped.
\<close>

theorem out_of_range_score_is_rejected:
  assumes init: "AIService_init h = Inr (self w)"
    and reply: "h (brand_voice_cloner_head @ join ''\<newline>'' campaign_texts @
                   brand_voice_cloner_tail) = Inr reply"
    and decoded: "loads L reply = Some (JObject kw)"
    and fields: "map_of kw ''tone'' = Some (JString t)"
      "map_of kw ''emoji_density'' = Some (JFloat d)"
      "map_of kw ''cta_style'' = Some (JString c)"
      "map_of kw ''body_style'' = Some (JString b)"
      "map_of kw ''new_campaign_body'' = Some (JString body)"
    and score: "map_of kw ''predicted_score'' = Some (JInt n)"
    and range: "n < 0 \<or> 100 < n"
  shows "fst (clone_brand_voice L campaign_texts w) =
           Inl (ValidationError
                  [([LField ''predicted_score''],
                    if 100 < n then LessThanEqual else GreaterThanEqual)])"
proof -
  have "validate_int L (Some 0) (Some 100) (JInt n) =
          Inl [([], if 100 < n then LessThanEqual else GreaterThanEqual)]"
    using range by (rule validate_int_out_of_range)
  with fields score have "new_BrandVoiceOutput L kw =
      Inl (map (\<lambda>(loc, t). (LField ''predicted_score'' # loc, t))
             [([], if 100 < n then LessThanEqual else GreaterThanEqual)])"
    by (intro new_BrandVoiceOutput_score)
  then have "new_BrandVoiceOutput L kw =
      Inl [([LField ''predicted_score''], if 100 < n then LessThanEqual else GreaterThanEqual)]"
    by simp
  with clone_brand_voice_reply(4) [OF init reply decoded] show ?thesis
    by blast
qed

theorem out_of_range_score_is_rejected_witness:
  "fst (clone_brand_voice stub_lib [''Shop now!''] (fresh (stub_service (brand_voice_reply ''150'')))) =
     Inl (ValidationError [([LField ''predicted_score''], LessThanEqual)])"
  using out_of_range_score_is_rejected [where L = stub_lib and n = 150
      and reply = "brand_voice_reply ''150''" and campaign_texts = "[''Shop now!'']"
      and kw = "[(''tone'', JString ''playful''), (''emoji_density'', JFloat (Finite (1 / 2))),
                 (''cta_style'', JString ''urgent''), (''body_style'', JString ''storytelling''),
                 (''predicted_score'', JInt 150), (''new_campaign_body'', JString ''Shop now!'')]"
      and t = "''playful''" and d = "Finite (1 / 2)" and c = "''urgent''"
      and b = "''storytelling''" and body = "''Shop now!''",
      OF stub_init [of "brand_voice_reply ''150''"]]
  by (simp add: stub_lib_simps stub_loads_replies brand_voice_object_def)

text \<open>
  C5, as the specification states it, fails: \<^verbatim>\<open>json.loads\<close> accepts texts that are
  not valid JSON (\<^verbatim>\<open>NaN\<close>, \<^verbatim>\<open>Infinity\<close>, \<^verbatim>\<open>-Infinity\<close>). The reply \<^verbatim>\<open>NaN\<close> is
  decoded to a float and the operation raises \<^verbatim>\<open>TypeError\<close>, not the decoder's error;
  a reply that is an object with \<^verbatim>\<open>NaN\<close> for \<open>emoji_density\<close> is validated and
  returned as a record.
\<close>

theorem lenient_decoder_counterexample:
  "stub_loads ''NaN'' = Some (JFloat NaN) \<and>
   fst (get_vibe_report stub_lib ''Total spend: $350'' (fresh (stub_service ''NaN''))) =
     Inl TypeError \<and>
   fst (clone_brand_voice stub_lib [''Shop now!''] (fresh (stub_service brand_voice_nan_reply))) =
     Inr \<lparr>tone = ''playful'', emoji_density = NaN, cta_style = ''urgent'',
          body_style = ''storytelling'', predicted_score = 72,
          new_campaign_body = ''Shop now!''\<rparr>"
proof -
  have "fst (get_vibe_report stub_lib ''Total spend: $350'' (fresh (stub_service ''NaN''))) =
      Inl TypeError"
    by (rule get_vibe_report_reply(2) [OF stub_init [of "''NaN''"],
          where reply = "''NaN''" and j = "JFloat NaN"])
       (simp_all add: stub_lib_simps stub_loads_replies)
  moreover have "fst (clone_brand_voice stub_lib [''Shop now!'']
          (fresh (stub_service brand_voice_nan_reply))) =
     Inr \<lparr>tone = ''playful'', emoji_density = NaN, cta_style = ''urgent'',
          body_style = ''storytelling'', predicted_score = 72,
          new_campaign_body = ''Shop now!''\<rparr>"
    by (rule clone_brand_voice_reply(3) [OF stub_init [of brand_voice_nan_reply],
          where kw =
          "[(''tone'', JString ''playful''), (''emoji_density'', JFloat NaN),
            (''cta_style'', JString ''urgent''), (''body_style'', JString ''storytelling''),
            (''predicted_score'', JInt 72), (''new_campaign_body'', JString ''Shop now!'')]"
          and reply = brand_voice_nan_reply])
       (simp_all add: stub_lib_simps stub_loads_replies new_BrandVoiceOutput_def required_def
          validate_int_def)
  ultimately show ?thesis
    by (simp add: stub_loads_replies)
qed

text \<open>
  C5, amended. When the decoder rejects the reply's text (\<^verbatim>\<open>json.loads\<close> raises
  \<^verbatim>\<open>JSONDecodeError\<close>), each of the three operations raises that error, which is not
  a validation error.
\<close>

theorem undecodable_reply_is_parse_error:
  assumes init: "AIService_init h = Inr (self w)"
  shows
    "(h (vibe_profiler_head @ transaction_summary @ vibe_profiler_tail) = Inr reply_v \<and>
      loads L reply_v = None \<longrightarrow>
      fst (get_vibe_report L transaction_summary w) = Inl JSONDecodeError \<and>
      (\<forall>es. fst (get_vibe_report L transaction_summary w) \<noteq> Inl (ValidationError es))) \<and>
     (h (brand_voice_cloner_head @ join ''\<newline>'' campaign_texts @ brand_voice_cloner_tail) =
        Inr reply_b \<and>
      loads L reply_b = None \<longrightarrow>
      fst (clone_brand_voice L campaign_texts w) = Inl JSONDecodeError \<and>
      (\<forall>es. fst (clone_brand_voice L campaign_texts w) \<noteq> Inl (ValidationError es))) \<and>
     (h (smart_receipt_recommender_head @ join '', '' current_basket_items @
         smart_receipt_recommender_middle @ str_of past_purchase_patterns @
         smart_receipt_recommender_tail) = Inr reply_s \<and>
      loads L reply_s = None \<longrightarrow>
      fst (get_smart_receipt_recommendations L str_of current_basket_items
             past_purchase_patterns w) = Inl JSONDecodeError \<and>
      (\<forall>es. fst (get_smart_receipt_recommendations L str_of current_basket_items
                  past_purchase_patterns w) \<noteq> Inl (ValidationError es)))"
  using get_vibe_report_reply(1) [OF init, of transaction_summary reply_v L]
    clone_brand_voice_reply(1) [OF init, of campaign_texts reply_b L]
    get_smart_receipt_recommendations_reply(1)
      [OF init, of current_basket_items str_of past_purchase_patterns reply_s L]
  by simp

theorem undecodable_reply_is_parse_error_witness:
  "fst (get_vibe_report stub_lib ''Total spend: $350''
          (fresh (stub_service ''I can't help with that''))) = Inl JSONDecodeError \<and>
   fst (clone_brand_voice stub_lib [''Shop now!'']
          (fresh (stub_service ''I can't help with that''))) = Inl JSONDecodeError \<and>
   fst (get_smart_receipt_recommendations stub_lib stub_str [''Almond Milk'']
          [(''favorite_brand'', ''EcoBrew'')]
          (fresh (stub_service ''I can't help with that''))) = Inl JSONDecodeError"
  using undecodable_reply_is_parse_error [where L = stub_lib
      and reply_v = "''I can't help with that''" and reply_b = "''I can't help with that''"
      and reply_s = "''I can't help with that''"
      and transaction_summary = "''Total spend: $350''" and campaign_texts = "[''Shop now!'']"
      and str_of = stub_str and current_basket_items = "[''Almond Milk'']"
      and past_purchase_patterns = "[(''favorite_brand'', ''EcoBrew'')]",
      OF stub_init [of "''I can't help with that''"]]
  by (simp add: stub_lib_simps stub_loads_replies)

text \<open>
  C10. When the reply decodes to a value that is not an object (a list, a string, a
  number, a boolean, null), each operation raises \<^verbatim>\<open>TypeError\<close>: neither the
  decoder's error nor a validation error, nor the template's or the endpoint's.
\<close>

theorem non_object_reply_is_type_error:
  assumes init: "AIService_init h = Inr (self w)"
  shows
    "(h (vibe_profiler_head @ transaction_summary @ vibe_profiler_tail) = Inr reply_v \<and>
      loads L reply_v = Some j_v \<and> (\<forall>kw. j_v \<noteq> JObject kw) \<longrightarrow>
      fst (get_vibe_report L transaction_summary w) = Inl TypeError) \<and>
     (h (brand_voice_cloner_head @ join ''\<newline>'' campaign_texts @ brand_voice_cloner_tail) =
        Inr reply_b \<and>
      loads L reply_b = Some j_b \<and> (\<forall>kw. j_b \<noteq> JObject kw) \<longrightarrow>
      fst (clone_brand_voice L campaign_texts w) = Inl TypeError) \<and>
     (h (smart_receipt_recommender_head @ join '', '' current_basket_items @
         smart_receipt_recommender_middle @ str_of past_purchase_patterns @
         smart_receipt_recommender_tail) = Inr reply_s \<and>
      loads L reply_s = Some j_s \<and> (\<forall>kw. j_s \<noteq> JObject kw) \<longrightarrow>
      fst (get_smart_receipt_recommendations L str_of current_basket_items
             past_purchase_patterns w) = Inl TypeError) \<and>
     TypeError \<noteq> JSONDecodeError \<and> (\<forall>es. TypeError \<noteq> ValidationError es) \<and>
     (\<forall>k. TypeError \<noteq> KeyError k) \<and> (\<forall>msg. TypeError \<noteq> TransportError msg)"
  using get_vibe_report_reply(2) [OF init, of transaction_summary reply_v L j_v]
    clone_brand_voice_reply(2) [OF init, of campaign_texts reply_b L j_b]
    get_smart_receipt_recommendations_reply(2)
      [OF init, of current_basket_items str_of past_purchase_patterns reply_s L j_s]
  by simp

theorem non_object_reply_is_type_error_witness:
  "fst (get_vibe_report stub_lib ''Total spend: $350'' (fresh (stub_service ''[1, 2]''))) =
     Inl TypeError \<and>
   fst (clone_brand_voice stub_lib [''Shop now!''] (fresh (stub_service ''[1, 2]''))) =
     Inl TypeError \<and>
   fst (get_smart_receipt_recommendations stub_lib stub_str [''Almond Milk'']
          [(''favorite_brand'', ''EcoBrew'')] (fresh (stub_service ''[1, 2]''))) = Inl TypeError"
  using non_object_reply_is_type_error [where L = stub_lib
      and reply_v = "''[1, 2]''" and reply_b = "''[1, 2]''" and reply_s = "''[1, 2]''"
      and j_v = "JArray [JInt 1, JInt 2]" and j_b = "JArray [JInt 1, JInt 2]"
      and j_s = "JArray [JInt 1, JInt 2]"
      and transaction_summary = "''Total spend: $350''" and campaign_texts = "[''Shop now!'']"
      and str_of = stub_str and current_basket_items = "[''Almond Milk'']"
      and past_purchase_patterns = "[(''favorite_brand'', ''EcoBrew'')]",
      OF stub_init [of "''[1, 2]''"]]
  by (simp add: stub_lib_simps stub_loads_replies)

text \<open>
  C7. Every call of each operation appends exactly one prompt to the requests sent to
  the hosted model, whatever its outcome, and leaves the service object as it was;
  its result does not depend on the requests and log records of earlier calls.
\<close>

theorem one_request_per_call:
  assumes init: "AIService_init h = Inr (self w)"
    and same: "self w' = self w"
  shows
    "length (requests (snd (get_vibe_report L transaction_summary w))) =
       length (requests w) + 1 \<and>
     butlast (requests (snd (get_vibe_report L transaction_summary w))) = requests w \<and>
     self (snd (get_vibe_report L transaction_summary w)) = self w \<and>
     fst (get_vibe_report L transaction_summary w') = fst (get_vibe_report L transaction_summary w) \<and>
     length (requests (snd (clone_brand_voice L campaign_texts w))) = length (requests w) + 1 \<and>
     butlast (requests (snd (clone_brand_voice L campaign_texts w))) = requests w \<and>
     self (snd (clone_brand_voice L campaign_texts w)) = self w \<and>
     fst (clone_brand_voice L campaign_texts w') = fst (clone_brand_voice L campaign_texts w) \<and>
     length (requests (snd (get_smart_receipt_recommendations L str_of current_basket_items
                              past_purchase_patterns w))) = length (requests w) + 1 \<and>
     butlast (requests (snd (get_smart_receipt_recommendations L str_of current_basket_items
                               past_purchase_patterns w))) = requests w \<and>
     self (snd (get_smart_receipt_recommendations L str_of current_basket_items
                  past_purchase_patterns w)) = self w \<and>
     fst (get_smart_receipt_recommendations L str_of current_basket_items
            past_purchase_patterns w') =
     fst (get_smart_receipt_recommendations L str_of current_basket_items
            past_purchase_patterns w)"
  using init same
  by (simp add: operations call_ai_model_requests init_prompts call_ai_model_self
      call_ai_model_same_service [OF same])

theorem one_request_per_call_witness:
  "length (requests (snd (get_vibe_report stub_lib ''Total spend: $350''
                            (fresh (stub_service vibe_reply))))) = 1 \<and>
   self (snd (get_vibe_report stub_lib ''Total spend: $350'' (fresh (stub_service vibe_reply)))) =
     stub_service vibe_reply \<and>
   fst (get_vibe_report stub_lib ''Total spend: $350''
          ((fresh (stub_service vibe_reply))\<lparr>requests := [''an earlier prompt'']\<rparr>)) =
   fst (get_vibe_report stub_lib ''Total spend: $350'' (fresh (stub_service vibe_reply))) \<and>
   length (requests (snd (clone_brand_voice stub_lib [] (fresh (stub_service vibe_reply))))) = 1 \<and>
   length (requests (snd (get_smart_receipt_recommendations stub_lib stub_str [] []
                            (fresh (stub_service vibe_reply))))) = 1"
  using one_request_per_call [where L = stub_lib and w = "fresh (stub_service vibe_reply)"
      and w' = "(fresh (stub_service vibe_reply))\<lparr>requests := [''an earlier prompt'']\<rparr>"
      and transaction_summary = "''Total spend: $350''" and campaign_texts = "[]"
      and str_of = stub_str and current_basket_items = "[]" and past_purchase_patterns = "[]",
      OF stub_init [of vibe_reply]]
  by (simp add: fresh_def)

text \<open>
  C8. Fields of the reply's object that the model does not declare are ignored: when
  the object cut down to the declared fields makes a valid record, the operation
  returns that record.
\<close>

theorem extra_fields_are_ignored:
  assumes init: "AIService_init h = Inr (self w)"
  shows
    "(h (vibe_profiler_head @ transaction_summary @ vibe_profiler_tail) = Inr reply_v \<and>
      loads L reply_v = Some (JObject kw_v) \<and>
      new_VibeReportOutput L (filter (\<lambda>(k, v). k \<in> set VibeReportOutput_fields) kw_v) =
        Inr out_v \<longrightarrow>
      fst (get_vibe_report L transaction_summary w) = Inr out_v) \<and>
     (h (brand_voice_cloner_head @ join ''\<newline>'' campaign_texts @ brand_voice_cloner_tail) =
        Inr reply_b \<and>
      loads L reply_b = Some (JObject kw_b) \<and>
      new_BrandVoiceOutput L (filter (\<lambda>(k, v). k \<in> set BrandVoiceOutput_fields) kw_b) =
        Inr out_b \<longrightarrow>
      fst (clone_brand_voice L campaign_texts w) = Inr out_b) \<and>
     (h (smart_receipt_recommender_head @ join '', '' current_basket_items @
         smart_receipt_recommender_middle @ str_of past_purchase_patterns @
         smart_receipt_recommender_tail) = Inr reply_s \<and>
      loads L reply_s = Some (JObject kw_s) \<and>
      new_SmartReceiptOutput L (filter (\<lambda>(k, v). k \<in> set SmartReceiptOutput_fields) kw_s) =
        Inr out_s \<longrightarrow>
      fst (get_smart_receipt_recommendations L str_of current_basket_items past_purchase_patterns w) = Inr out_s)"
  using get_vibe_report_reply(3) [OF init, of transaction_summary reply_v L kw_v out_v]
    clone_brand_voice_reply(3) [OF init, of campaign_texts reply_b L kw_b out_b]
    get_smart_receipt_recommendations_reply(3)
      [OF init, of current_basket_items str_of past_purchase_patterns reply_s L kw_s out_s]
  by (simp add: new_VibeReportOutput_declared new_BrandVoiceOutput_declared
      new_SmartReceiptOutput_declared)

lemma stub_models:
  "new_VibeReportOutput L
     [(''shopping_persona'', JString ''Green Flag''), (''key_behavioral_metrics'', JObject []),
      (''key_purchase_metrics'', JObject []), (''color_palette_hints'', JArray [])] =
   Inr \<lparr>shopping_persona = ''Green Flag'', key_behavioral_metrics = [],
        key_purchase_metrics = [], color_palette_hints = []\<rparr>"
  "new_BrandVoiceOutput L
     [(''tone'', JString ''playful''), (''emoji_density'', JFloat (Finite (1 / 2))),
      (''cta_style'', JString ''urgent''), (''body_style'', JString ''storytelling''),
      (''predicted_score'', JInt 72), (''new_campaign_body'', JString ''Shop now!'')] =
   Inr \<lparr>tone = ''playful'', emoji_density = Finite (1 / 2), cta_style = ''urgent'',
        body_style = ''storytelling'', predicted_score = 72, new_campaign_body = ''Shop now!''\<rparr>"
  "new_SmartReceiptOutput L
     [(''next_best_item'', JString ''Oat Milk''),
      (''loyalty_incentive_text'', JString ''Earn double points!''),
      (''coupons'', JArray [JString ''10% off coffee''])] =
   Inr \<lparr>next_best_item = ''Oat Milk'', loyalty_incentive_text = ''Earn double points!'',
        coupons = [''10% off coffee'']\<rparr>"
  by (simp_all add: new_VibeReportOutput_def new_BrandVoiceOutput_def new_SmartReceiptOutput_def
      required_def validate_int_def)

theorem extra_fields_are_ignored_witness:
  "fst (get_vibe_report stub_lib ''Total spend: $350'' (fresh (stub_service vibe_extra_reply))) =
     Inr \<lparr>shopping_persona = ''Green Flag'', key_behavioral_metrics = [],
          key_purchase_metrics = [], color_palette_hints = []\<rparr> \<and>
   fst (clone_brand_voice stub_lib [''Shop now!''] (fresh (stub_service brand_voice_extra_reply))) =
     Inr \<lparr>tone = ''playful'', emoji_density = Finite (1 / 2), cta_style = ''urgent'',
          body_style = ''storytelling'', predicted_score = 72,
          new_campaign_body = ''Shop now!''\<rparr> \<and>
   fst (get_smart_receipt_recommendations stub_lib stub_str [''Almond Milk'']
          [(''favorite_brand'', ''EcoBrew'')] (fresh (stub_service smart_receipt_extra_reply))) =
     Inr \<lparr>next_best_item = ''Oat Milk'', loyalty_incentive_text = ''Earn double points!'',
          coupons = [''10% off coffee'']\<rparr>"
proof -
  have one: "fst (get_vibe_report stub_lib ''Total spend: $350''
                    (fresh (stub_service vibe_extra_reply))) =
     Inr \<lparr>shopping_persona = ''Green Flag'', key_behavioral_metrics = [],
          key_purchase_metrics = [], color_palette_hints = []\<rparr>"
    using extra_fields_are_ignored [where L = stub_lib and reply_v = vibe_extra_reply
        and transaction_summary = "''Total spend: $350''"
        and kw_v = "[(''shopping_persona'', JString ''Green Flag''),
                     (''key_behavioral_metrics'', JObject []),
                     (''key_purchase_metrics'', JObject []),
                     (''color_palette_hints'', JArray []), (''notes'', JNull)]"
        and out_v = "\<lparr>shopping_persona = ''Green Flag'', key_behavioral_metrics = [],
                       key_purchase_metrics = [], color_palette_hints = []\<rparr>",
        OF stub_init [of vibe_extra_reply], THEN conjunct1]
    by (simp add: stub_lib_simps stub_loads_replies VibeReportOutput_fields_def stub_models)
  have two: "fst (clone_brand_voice stub_lib [''Shop now!'']
                    (fresh (stub_service brand_voice_extra_reply))) =
     Inr \<lparr>tone = ''playful'', emoji_density = Finite (1 / 2), cta_style = ''urgent'',
          body_style = ''storytelling'', predicted_score = 72,
          new_campaign_body = ''Shop now!''\<rparr>"
    using extra_fields_are_ignored [where L = stub_lib and reply_b = brand_voice_extra_reply
        and campaign_texts = "[''Shop now!'']"
        and kw_b = "[(''language'', JString ''en''), (''tone'', JString ''playful''),
                     (''emoji_density'', JFloat (Finite (1 / 2))),
                     (''cta_style'', JString ''urgent''), (''body_style'', JString ''storytelling''),
                     (''predicted_score'', JInt 72), (''new_campaign_body'', JString ''Shop now!'')]"
        and out_b = "\<lparr>tone = ''playful'', emoji_density = Finite (1 / 2), cta_style = ''urgent'',
                       body_style = ''storytelling'', predicted_score = 72,
                       new_campaign_body = ''Shop now!''\<rparr>",
        OF stub_init [of brand_voice_extra_reply], THEN conjunct2, THEN conjunct1]
    by (simp add: stub_lib_simps stub_loads_replies BrandVoiceOutput_fields_def stub_models)
  have three: "fst (get_smart_receipt_recommendations stub_lib stub_str [''Almond Milk'']
          [(''favorite_brand'', ''EcoBrew'')] (fresh (stub_service smart_receipt_extra_reply))) =
     Inr \<lparr>next_best_item = ''Oat Milk'', loyalty_incentive_text = ''Earn double points!'',
          coupons = [''10% off coffee'']\<rparr>"
    using extra_fields_are_ignored [where L = stub_lib and reply_s = smart_receipt_extra_reply
        and str_of = stub_str and current_basket_items = "[''Almond Milk'']"
        and past_purchase_patterns = "[(''favorite_brand'', ''EcoBrew'')]"
        and kw_s = "[(''next_best_item'', JString ''Oat Milk''),
                     (''loyalty_incentive_text'', JString ''Earn double points!''),
                     (''coupons'', JArray [JString ''10% off coffee'']),
                     (''confidence'', JFloat (Finite (9 / 10)))]"
        and out_s = "\<lparr>next_best_item = ''Oat Milk'',
                       loyalty_incentive_text = ''Earn double points!'',
                       coupons = [''10% off coffee'']\<rparr>",
        OF stub_init [of smart_receipt_extra_reply], THEN conjunct2, THEN conjunct2]
    by (simp add: stub_lib_simps stub_loads_replies SmartReceiptOutput_fields_def stub_models)
  from one two three show ?thesis by simp
qed

text \<open>
  C9. Validation converts rather than checks the type: a \<open>predicted_score\<close> given as
  a float with an integral value, or as a string that reads as an integer, is
  accepted (within 0 to 100), and \<open>clone_brand_voice\<close> returns the integer.
\<close>

theorem lax_coercion_of_score:
  assumes init: "AIService_init h = Inr (self w)"
    and reply: "h (brand_voice_cloner_head @ join ''\<newline>'' campaign_texts @ brand_voice_cloner_tail) = Inr reply"
    and decoded: "loads L reply = Some (JObject kw)"
    and fields: "map_of kw ''tone'' = Some (JString t)"
      "map_of kw ''emoji_density'' = Some (JFloat d)"
      "map_of kw ''cta_style'' = Some (JString c)"
      "map_of kw ''body_style'' = Some (JString b)"
      "map_of kw ''new_campaign_body'' = Some (JString body)"
    and score: "map_of kw ''predicted_score'' = Some (JFloat (Finite (of_int n))) \<or>
                (map_of kw ''predicted_score'' = Some (JString s) \<and> str_as_int L s = Some n)"
    and range: "0 \<le> n" "n \<le> 100"
  shows "fst (clone_brand_voice L campaign_texts w) =
           Inr \<lparr>tone = t, emoji_density = d, cta_style = c, body_style = b,
                predicted_score = n, new_campaign_body = body\<rparr>"
proof -
  from score range obtain v where "map_of kw ''predicted_score'' = Some v"
    and "validate_int L (Some 0) (Some 100) v = Inr n"
    by (auto simp: validate_int_float validate_int_string)
  with fields have "new_BrandVoiceOutput L kw =
      Inr \<lparr>tone = t, emoji_density = d, cta_style = c, body_style = b,
           predicted_score = n, new_campaign_body = body\<rparr>"
    by (intro new_BrandVoiceOutput_valid)
  with clone_brand_voice_reply(3) [OF init reply decoded] show ?thesis .
qed

theorem lax_coercion_of_score_witness:
  "fst (clone_brand_voice stub_lib [''Shop now!'']
          (fresh (stub_service (brand_voice_reply ''50.0'')))) =
     Inr \<lparr>tone = ''playful'', emoji_density = Finite (1 / 2), cta_style = ''urgent'',
          body_style = ''storytelling'', predicted_score = 50,
          new_campaign_body = ''Shop now!''\<rparr> \<and>
   fst (clone_brand_voice stub_lib [''Shop now!'']
          (fresh (stub_service (brand_voice_reply ''\"50\"'')))) =
     Inr \<lparr>tone = ''playful'', emoji_density = Finite (1 / 2), cta_style = ''urgent'',
          body_style = ''storytelling'', predicted_score = 50,
          new_campaign_body = ''Shop now!''\<rparr>"
proof -
  have one: "fst (clone_brand_voice stub_lib [''Shop now!'']
          (fresh (stub_service (brand_voice_reply ''50.0'')))) =
     Inr \<lparr>tone = ''playful'', emoji_density = Finite (1 / 2), cta_style = ''urgent'',
          body_style = ''storytelling'', predicted_score = 50,
          new_campaign_body = ''Shop now!''\<rparr>"
    using lax_coercion_of_score [where L = stub_lib and n = 50 and s = "''50''"
        and reply = "brand_voice_reply ''50.0''" and campaign_texts = "[''Shop now!'']"
        and kw = "[(''tone'', JString ''playful''), (''emoji_density'', JFloat (Finite (1 / 2))),
                   (''cta_style'', JString ''urgent''), (''body_style'', JString ''storytelling''),
                   (''predicted_score'', JFloat (Finite 50)),
                   (''new_campaign_body'', JString ''Shop now!'')]"
        and t = "''playful''" and d = "Finite (1 / 2)" and c = "''urgent''"
        and b = "''storytelling''" and body = "''Shop now!''",
        OF stub_init [of "brand_voice_reply ''50.0''"]]
    by (simp add: stub_lib_simps stub_loads_replies brand_voice_object_def)
  have two: "fst (clone_brand_voice stub_lib [''Shop now!'']
          (fresh (stub_service (brand_voice_reply ''\"50\"'')))) =
     Inr \<lparr>tone = ''playful'', emoji_density = Finite (1 / 2), cta_style = ''urgent'',
          body_style = ''storytelling'', predicted_score = 50,
          new_campaign_body = ''Shop now!''\<rparr>"
    using lax_coercion_of_score [where L = stub_lib and n = 50 and s = "''50''"
        and reply = "brand_voice_reply ''\"50\"''" and campaign_texts = "[''Shop now!'']"
        and kw = "[(''tone'', JString ''playful''), (''emoji_density'', JFloat (Finite (1 / 2))),
                   (''cta_style'', JString ''urgent''), (''body_style'', JString ''storytelling''),
                   (''predicted_score'', JString ''50''),
                   (''new_campaign_body'', JString ''Shop now!'')]"
        and t = "''playful''" and d = "Finite (1 / 2)" and c = "''urgent''"
        and b = "''storytelling''" and body = "''Shop now!''",
        OF stub_init [of "brand_voice_reply ''\"50\"''"]]
    by (simp add: stub_lib_simps stub_loads_replies brand_voice_object_def)
  from one two show ?thesis by simp
qed

text \<open>
  C2, as the specification states it, fails: the operations do not check their inputs.
  With an empty list of campaign texts \<open>clone_brand_voice\<close> renders the prompt with
  an empty text, calls the hosted model once and returns the validated record.
\<close>

theorem empty_input_counterexample:
  "fst (clone_brand_voice stub_lib [] (fresh (stub_service (brand_voice_reply ''72'')))) =
     Inr \<lparr>tone = ''playful'', emoji_density = Finite (1 / 2), cta_style = ''urgent'',
          body_style = ''storytelling'', predicted_score = 72,
          new_campaign_body = ''Shop now!''\<rparr> \<and>
   requests (snd (clone_brand_voice stub_lib []
                    (fresh (stub_service (brand_voice_reply ''72''))))) =
     [brand_voice_cloner_head @ brand_voice_cloner_tail]"
proof -
  note init = stub_init [of "brand_voice_reply ''72''"]
  have "fst (clone_brand_voice stub_lib [] (fresh (stub_service (brand_voice_reply ''72'')))) =
     Inr \<lparr>tone = ''playful'', emoji_density = Finite (1 / 2), cta_style = ''urgent'',
          body_style = ''storytelling'', predicted_score = 72,
          new_campaign_body = ''Shop now!''\<rparr>"
    by (rule clone_brand_voice_reply(3) [OF init, where kw =
          "[(''tone'', JString ''playful''), (''emoji_density'', JFloat (Finite (1 / 2))),
            (''cta_style'', JString ''urgent''), (''body_style'', JString ''storytelling''),
            (''predicted_score'', JInt 72), (''new_campaign_body'', JString ''Shop now!'')]"
          and reply = "brand_voice_reply ''72''"])
       (simp_all add: stub_lib_simps stub_loads_replies brand_voice_object_def stub_models)
  moreover have "requests (snd (clone_brand_voice stub_lib []
                    (fresh (stub_service (brand_voice_reply ''72''))))) =
     [brand_voice_cloner_head @ brand_voice_cloner_tail]"
    using init_brand_voice_cloner_prompt [OF init, of "[]"]
    by (simp add: clone_brand_voice_def call_ai_model_requests fresh_def)
  ultimately show ?thesis by simp
qed

text \<open>
  C2, amended. No input, empty ones included, makes an operation raise
  \<^verbatim>\<open>KeyError\<close>: every call of the three operations sends one request. Only the shared
  helper, called with keyword arguments that lack a placeholder of the template
  (the only one, or either of the two of the smart receipt template), raises
  \<^verbatim>\<open>KeyError\<close> for the first placeholder that is missing, and then no request is sent.
\<close>

theorem every_input_is_sent:
  assumes init: "AIService_init h = Inr (self w)"
  shows
    "length (requests (snd (get_vibe_report L transaction_summary w))) = length (requests w) + 1 \<and>
     (\<forall>k. fst (get_vibe_report L transaction_summary w) \<noteq> Inl (KeyError k)) \<and>
     length (requests (snd (clone_brand_voice L campaign_texts w))) = length (requests w) + 1 \<and>
     (\<forall>k. fst (clone_brand_voice L campaign_texts w) \<noteq> Inl (KeyError k)) \<and>
     length (requests (snd (get_smart_receipt_recommendations L str_of current_basket_items past_purchase_patterns w))) = length (requests w) + 1 \<and>
     (\<forall>k. fst (get_smart_receipt_recommendations L str_of current_basket_items past_purchase_patterns w) \<noteq> Inl (KeyError k)) \<and>
     (map_of input_v ''transaction_summary'' = None \<longrightarrow>
      fst (call_ai_model L (vibe_profiler_prompt (self w)) input_v output_v w) =
        Inl (KeyError ''transaction_summary'') \<and>
      requests (snd (call_ai_model L (vibe_profiler_prompt (self w)) input_v output_v w)) =
        requests w) \<and>
     (map_of input_b ''campaign_texts'' = None \<longrightarrow>
      fst (call_ai_model L (brand_voice_cloner_prompt (self w)) input_b output_b w) =
        Inl (KeyError ''campaign_texts'') \<and>
      requests (snd (call_ai_model L (brand_voice_cloner_prompt (self w)) input_b output_b w)) =
        requests w) \<and>
     (map_of input_s ''current_basket_items'' = None \<longrightarrow>
      fst (call_ai_model L (smart_receipt_recommender_prompt (self w)) input_s output_s w) =
        Inl (KeyError ''current_basket_items'') \<and>
      requests (snd (call_ai_model L (smart_receipt_recommender_prompt (self w)) input_s
                       output_s w)) = requests w) \<and>
     (map_of input_p ''current_basket_items'' \<noteq> None \<and>
      map_of input_p ''past_purchase_patterns'' = None \<longrightarrow>
      fst (call_ai_model L (smart_receipt_recommender_prompt (self w)) input_p output_p w) =
        Inl (KeyError ''past_purchase_patterns'') \<and>
      requests (snd (call_ai_model L (smart_receipt_recommender_prompt (self w)) input_p
                       output_p w)) = requests w)"
proof -
  from init have S: "self w =
      \<lparr>llm = h, vibe_profiler_prompt = \<lparr>template = vibe_profiler_text\<rparr>,
       brand_voice_cloner_prompt = \<lparr>template = brand_voice_cloner_text\<rparr>,
       smart_receipt_recommender_prompt = \<lparr>template = smart_receipt_recommender_text\<rparr>\<rparr>"
    by (simp add: AIService_init_Inr)
  have sent: "length (requests (snd (get_vibe_report L transaction_summary w))) = length (requests w) + 1"
    "length (requests (snd (clone_brand_voice L campaign_texts w))) = length (requests w) + 1"
    "length (requests (snd (get_smart_receipt_recommendations L str_of current_basket_items past_purchase_patterns w))) = length (requests w) + 1"
    using init by (simp_all add: operations call_ai_model_requests init_prompts)
  have raised: "fst (get_vibe_report L transaction_summary w) \<noteq> Inl (KeyError k)"
    "fst (clone_brand_voice L campaign_texts w) \<noteq> Inl (KeyError k)"
    "fst (get_smart_receipt_recommendations L str_of current_basket_items past_purchase_patterns w) \<noteq> Inl (KeyError k)" for k
    unfolding operations
    by (rule call_ai_model_not_KeyError, rule init_prompts [OF init])+
  have missing:
    "map_of input_v ''transaction_summary'' = None \<Longrightarrow>
     format (vibe_profiler_prompt (self w)) input_v = Inl (KeyError ''transaction_summary'')"
    "map_of input_b ''campaign_texts'' = None \<Longrightarrow>
     format (brand_voice_cloner_prompt (self w)) input_b = Inl (KeyError ''campaign_texts'')"
    "map_of input_s ''current_basket_items'' = None \<Longrightarrow>
     format (smart_receipt_recommender_prompt (self w)) input_s =
       Inl (KeyError ''current_basket_items'')"
    by (simp_all add: S format_vibe_profiler format_brand_voice_cloner
        format_smart_receipt_recommender)
  have second:
    "map_of input_p ''current_basket_items'' \<noteq> None \<Longrightarrow>
     map_of input_p ''past_purchase_patterns'' = None \<Longrightarrow>
     format (smart_receipt_recommender_prompt (self w)) input_p =
       Inl (KeyError ''past_purchase_patterns'')"
    by (auto simp: S format_smart_receipt_recommender)
  show ?thesis
    using sent raised
    by (auto simp: call_ai_model_unformatted [OF missing(1)]
        call_ai_model_unformatted [OF missing(2)] call_ai_model_unformatted [OF missing(3)]
        call_ai_model_unformatted [OF second] log_to_def)
qed

theorem every_input_is_sent_witness:
  "length (requests (snd (get_vibe_report stub_lib [] (fresh (stub_service vibe_reply))))) = 1 \<and>
   length (requests (snd (clone_brand_voice stub_lib [] (fresh (stub_service vibe_reply))))) = 1 \<and>
   length (requests (snd (get_smart_receipt_recommendations stub_lib stub_str [] []
                            (fresh (stub_service vibe_reply))))) = 1 \<and>
   fst (call_ai_model stub_lib (vibe_profiler_prompt (stub_service vibe_reply)) []
          (new_VibeReportOutput stub_lib) (fresh (stub_service vibe_reply))) =
     Inl (KeyError ''transaction_summary'') \<and>
   requests (snd (call_ai_model stub_lib (vibe_profiler_prompt (stub_service vibe_reply)) []
                    (new_VibeReportOutput stub_lib) (fresh (stub_service vibe_reply)))) = [] \<and>
   fst (call_ai_model stub_lib (brand_voice_cloner_prompt (stub_service vibe_reply)) []
          (new_BrandVoiceOutput stub_lib) (fresh (stub_service vibe_reply))) =
     Inl (KeyError ''campaign_texts'') \<and>
   fst (call_ai_model stub_lib (smart_receipt_recommender_prompt (stub_service vibe_reply))
          [(''past_purchase_patterns'', ''{}'')]
          (new_SmartReceiptOutput stub_lib) (fresh (stub_service vibe_reply))) =
     Inl (KeyError ''current_basket_items'') \<and>
   fst (call_ai_model stub_lib (smart_receipt_recommender_prompt (stub_service vibe_reply))
          [(''current_basket_items'', ''Almond Milk'')]
          (new_SmartReceiptOutput stub_lib) (fresh (stub_service vibe_reply))) =
     Inl (KeyError ''past_purchase_patterns'') \<and>
   requests (snd (call_ai_model stub_lib (smart_receipt_recommender_prompt (stub_service vibe_reply))
                    [(''current_basket_items'', ''Almond Milk'')]
                    (new_SmartReceiptOutput stub_lib) (fresh (stub_service vibe_reply)))) = []"
  using every_input_is_sent [where L = stub_lib and w = "fresh (stub_service vibe_reply)"
      and transaction_summary = "[]" and campaign_texts = "[]"
      and str_of = stub_str and current_basket_items = "[]" and past_purchase_patterns = "[]"
      and input_v = "[]" and input_b = "[]" and input_s = "[(''past_purchase_patterns'', ''{}'')]"
      and output_v = "new_VibeReportOutput stub_lib" and output_b = "new_BrandVoiceOutput stub_lib"
      and output_s = "new_SmartReceiptOutput stub_lib"
      and input_p = "[(''current_basket_items'', ''Almond Milk'')]"
      and output_p = "new_SmartReceiptOutput stub_lib",
      OF stub_init [of vibe_reply]]
  by (simp add: fresh_def)

text \<open>
  C4, as the specification states it, fails: a value of the wrong type is converted
  when it can be. A reply whose \<open>predicted_score\<close> is the JSON boolean \<^verbatim>\<open>true\<close> is
  accepted, and \<open>clone_brand_voice\<close> returns a record with the score 1.
\<close>

theorem wrong_type_is_converted_counterexample:
  "stub_loads (brand_voice_reply ''true'') = Some (brand_voice_object (JBool True)) \<and>
   fst (clone_brand_voice stub_lib [''Shop now!'']
          (fresh (stub_service (brand_voice_reply ''true'')))) =
     Inr \<lparr>tone = ''playful'', emoji_density = Finite (1 / 2), cta_style = ''urgent'',
          body_style = ''storytelling'', predicted_score = 1,
          new_campaign_body = ''Shop now!''\<rparr>"
proof -
  have "fst (clone_brand_voice stub_lib [''Shop now!'']
          (fresh (stub_service (brand_voice_reply ''true'')))) =
     Inr \<lparr>tone = ''playful'', emoji_density = Finite (1 / 2), cta_style = ''urgent'',
          body_style = ''storytelling'', predicted_score = 1,
          new_campaign_body = ''Shop now!''\<rparr>"
    by (rule clone_brand_voice_reply(3) [OF stub_init [of "brand_voice_reply ''true''"],
          where kw =
          "[(''tone'', JString ''playful''), (''emoji_density'', JFloat (Finite (1 / 2))),
            (''cta_style'', JString ''urgent''), (''body_style'', JString ''storytelling''),
            (''predicted_score'', JBool True), (''new_campaign_body'', JString ''Shop now!'')]"
          and reply = "brand_voice_reply ''true''"])
       (simp_all add: stub_lib_simps stub_loads_replies brand_voice_object_def
          new_BrandVoiceOutput_def required_def validate_int_def)
  then show ?thesis
    by (simp add: stub_loads_replies)
qed

text \<open>
  C4, amended. When the reply's object lacks a field of the model, or gives one a
  value that the field's validator does not accept (neither of the declared type nor
  convertible to it), the operation raises a validation error whose entries name
  exactly the rejected fields; the raw reply goes into the log record of the error
  and no record is returned.
\<close>

theorem rejected_fields_are_named:
  assumes init: "AIService_init h = Inr (self w)"
  shows
    "(h (vibe_profiler_head @ transaction_summary @ vibe_profiler_tail) = Inr reply_v \<and>
      loads L reply_v = Some (JObject kw_v) \<and> VibeReportOutput_rejected kw_v \<noteq> {} \<longrightarrow>
      fst (get_vibe_report L transaction_summary w) = Inl (ValidationError (errors_of (new_VibeReportOutput L kw_v))) \<and>
      named_fields (errors_of (new_VibeReportOutput L kw_v)) = VibeReportOutput_rejected kw_v \<and>
      logging (snd (get_vibe_report L transaction_summary w)) =
        logging w @
        [LogSending (take 200 (vibe_profiler_head @ transaction_summary @ vibe_profiler_tail)),
         LogReceived (take 200 reply_v),
         LogValidationError (errors_of (new_VibeReportOutput L kw_v)) reply_v]) \<and>
     (h (brand_voice_cloner_head @ join ''\<newline>'' campaign_texts @ brand_voice_cloner_tail) = Inr reply_b \<and>
      loads L reply_b = Some (JObject kw_b) \<and> BrandVoiceOutput_rejected L kw_b \<noteq> {} \<longrightarrow>
      fst (clone_brand_voice L campaign_texts w) = Inl (ValidationError (errors_of (new_BrandVoiceOutput L kw_b))) \<and>
      named_fields (errors_of (new_BrandVoiceOutput L kw_b)) = BrandVoiceOutput_rejected L kw_b \<and>
      logging (snd (clone_brand_voice L campaign_texts w)) =
        logging w @
        [LogSending (take 200 (brand_voice_cloner_head @ join ''\<newline>'' campaign_texts @ brand_voice_cloner_tail)),
         LogReceived (take 200 reply_b),
         LogValidationError (errors_of (new_BrandVoiceOutput L kw_b)) reply_b]) \<and>
     (h (smart_receipt_recommender_head @ join '', '' current_basket_items @
         smart_receipt_recommender_middle @ str_of past_purchase_patterns @
         smart_receipt_recommender_tail) = Inr reply_s \<and>
      loads L reply_s = Some (JObject kw_s) \<and> SmartReceiptOutput_rejected kw_s \<noteq> {} \<longrightarrow>
      fst (get_smart_receipt_recommendations L str_of current_basket_items past_purchase_patterns w) = Inl (ValidationError (errors_of (new_SmartReceiptOutput L kw_s))) \<and>
      named_fields (errors_of (new_SmartReceiptOutput L kw_s)) = SmartReceiptOutput_rejected kw_s \<and>
      logging (snd (get_smart_receipt_recommendations L str_of current_basket_items past_purchase_patterns w)) =
        logging w @
        [LogSending (take 200 (smart_receipt_recommender_head @ join '', '' current_basket_items @
         smart_receipt_recommender_middle @ str_of past_purchase_patterns @
         smart_receipt_recommender_tail)),
         LogReceived (take 200 reply_s),
         LogValidationError (errors_of (new_SmartReceiptOutput L kw_s)) reply_s])"
proof (intro conjI impI; elim conjE)
  assume r: "h (vibe_profiler_head @ transaction_summary @ vibe_profiler_tail) = Inr reply_v"
    and l: "loads L reply_v = Some (JObject kw_v)" and "VibeReportOutput_rejected kw_v \<noteq> {}"
  then have "isl (new_VibeReportOutput L kw_v)"
    by (simp add: isl_VibeReportOutput)
  then have e: "new_VibeReportOutput L kw_v = Inl (errors_of (new_VibeReportOutput L kw_v))"
    by (cases "new_VibeReportOutput L kw_v") simp_all
  from get_vibe_report_reply(4) [OF init r l e]
  show "fst (get_vibe_report L transaction_summary w) = Inl (ValidationError (errors_of (new_VibeReportOutput L kw_v)))"
    and "logging (snd (get_vibe_report L transaction_summary w)) =
        logging w @
        [LogSending (take 200 (vibe_profiler_head @ transaction_summary @ vibe_profiler_tail)),
         LogReceived (take 200 reply_v),
         LogValidationError (errors_of (new_VibeReportOutput L kw_v)) reply_v]"
    by simp_all
  show "named_fields (errors_of (new_VibeReportOutput L kw_v)) = VibeReportOutput_rejected kw_v"
    by (rule named_fields_VibeReportOutput)
next
  assume r: "h (brand_voice_cloner_head @ join ''\<newline>'' campaign_texts @ brand_voice_cloner_tail) = Inr reply_b"
    and l: "loads L reply_b = Some (JObject kw_b)" and "BrandVoiceOutput_rejected L kw_b \<noteq> {}"
  then have "isl (new_BrandVoiceOutput L kw_b)"
    by (simp add: isl_BrandVoiceOutput)
  then have e: "new_BrandVoiceOutput L kw_b = Inl (errors_of (new_BrandVoiceOutput L kw_b))"
    by (cases "new_BrandVoiceOutput L kw_b") simp_all
  from clone_brand_voice_reply(4) [OF init r l e]
  show "fst (clone_brand_voice L campaign_texts w) = Inl (ValidationError (errors_of (new_BrandVoiceOutput L kw_b)))"
    and "logging (snd (clone_brand_voice L campaign_texts w)) =
        logging w @
        [LogSending (take 200 (brand_voice_cloner_head @ join ''\<newline>'' campaign_texts @ brand_voice_cloner_tail)),
         LogReceived (take 200 reply_b),
         LogValidationError (errors_of (new_BrandVoiceOutput L kw_b)) reply_b]"
    by simp_all
  show "named_fields (errors_of (new_BrandVoiceOutput L kw_b)) = BrandVoiceOutput_rejected L kw_b"
    by (rule named_fields_BrandVoiceOutput)
next
  assume r: "h (smart_receipt_recommender_head @ join '', '' current_basket_items @
         smart_receipt_recommender_middle @ str_of past_purchase_patterns @
         smart_receipt_recommender_tail) = Inr reply_s"
    and l: "loads L reply_s = Some (JObject kw_s)" and "SmartReceiptOutput_rejected kw_s \<noteq> {}"
  then have "isl (new_SmartReceiptOutput L kw_s)"
    by (simp add: isl_SmartReceiptOutput)
  then have e: "new_SmartReceiptOutput L kw_s = Inl (errors_of (new_SmartReceiptOutput L kw_s))"
    by (cases "new_SmartReceiptOutput L kw_s") simp_all
  from get_smart_receipt_recommendations_reply(4)
    [where str_of = str_of and past_purchase_patterns = past_purchase_patterns, OF init r l e]
  show "fst (get_smart_receipt_recommendations L str_of current_basket_items past_purchase_patterns w) = Inl (ValidationError (errors_of (new_SmartReceiptOutput L kw_s)))"
    and "logging (snd (get_smart_receipt_recommendations L str_of current_basket_items past_purchase_patterns w)) =
        logging w @
        [LogSending (take 200 (smart_receipt_recommender_head @ join '', '' current_basket_items @
         smart_receipt_recommender_middle @ str_of past_purchase_patterns @
         smart_receipt_recommender_tail)),
         LogReceived (take 200 reply_s),
         LogValidationError (errors_of (new_SmartReceiptOutput L kw_s)) reply_s]"
    by simp_all
  show "named_fields (errors_of (new_SmartReceiptOutput L kw_s)) = SmartReceiptOutput_rejected kw_s"
    by (rule named_fields_SmartReceiptOutput)
qed

theorem rejected_fields_are_named_witness:
  "fst (get_vibe_report stub_lib ''Total spend: $350'' (fresh (stub_service smart_receipt_reply))) =
     Inl (ValidationError
            [([LField ''shopping_persona''], Missing),
             ([LField ''key_behavioral_metrics''], Missing),
             ([LField ''key_purchase_metrics''], Missing),
             ([LField ''color_palette_hints''], Missing)]) \<and>
   fst (clone_brand_voice stub_lib [''Shop now!'']
          (fresh (stub_service brand_voice_partial_reply))) =
     Inl (ValidationError [([LField ''predicted_score''], Missing)]) \<and>
   last (logging (snd (clone_brand_voice stub_lib [''Shop now!'']
                         (fresh (stub_service brand_voice_partial_reply))))) =
     LogValidationError [([LField ''predicted_score''], Missing)] brand_voice_partial_reply \<and>
   fst (get_smart_receipt_recommendations stub_lib stub_str [''Almond Milk'']
          [(''favorite_brand'', ''EcoBrew'')] (fresh (stub_service vibe_reply))) =
     Inl (ValidationError
            [([LField ''next_best_item''], Missing),
             ([LField ''loyalty_incentive_text''], Missing),
             ([LField ''coupons''], Missing)])"
proof -
  have one: "fst (get_vibe_report stub_lib ''Total spend: $350''
                    (fresh (stub_service smart_receipt_reply))) =
     Inl (ValidationError
            [([LField ''shopping_persona''], Missing),
             ([LField ''key_behavioral_metrics''], Missing),
             ([LField ''key_purchase_metrics''], Missing),
             ([LField ''color_palette_hints''], Missing)])"
    using rejected_fields_are_named [where L = stub_lib and reply_v = smart_receipt_reply
        and transaction_summary = "''Total spend: $350''"
        and kw_v = "[(''next_best_item'', JString ''Oat Milk''),
                     (''loyalty_incentive_text'', JString ''Earn double points!''),
                     (''coupons'', JArray [JString ''10% off coffee''])]",
        OF stub_init [of smart_receipt_reply], THEN conjunct1]
    by (simp add: stub_lib_simps stub_loads_replies VibeReportOutput_rejected_def rejected_def
        new_VibeReportOutput_def required_def also_field_def)
  have two: "fst (clone_brand_voice stub_lib [''Shop now!'']
          (fresh (stub_service brand_voice_partial_reply))) =
     Inl (ValidationError [([LField ''predicted_score''], Missing)]) \<and>
   last (logging (snd (clone_brand_voice stub_lib [''Shop now!'']
                         (fresh (stub_service brand_voice_partial_reply))))) =
     LogValidationError [([LField ''predicted_score''], Missing)] brand_voice_partial_reply"
    using rejected_fields_are_named [where L = stub_lib and reply_b = brand_voice_partial_reply
        and campaign_texts = "[''Shop now!'']"
        and kw_b = "[(''tone'', JString ''playful''), (''emoji_density'', JFloat (Finite (1 / 2))),
                     (''cta_style'', JString ''urgent''), (''body_style'', JString ''storytelling''),
                     (''new_campaign_body'', JString ''Shop now!'')]",
        OF stub_init [of brand_voice_partial_reply], THEN conjunct2, THEN conjunct1]
    by (simp add: stub_lib_simps stub_loads_replies BrandVoiceOutput_rejected_def rejected_def
        new_BrandVoiceOutput_def required_def also_field_def)
  have three: "fst (get_smart_receipt_recommendations stub_lib stub_str [''Almond Milk'']
          [(''favorite_brand'', ''EcoBrew'')] (fresh (stub_service vibe_reply))) =
     Inl (ValidationError
            [([LField ''next_best_item''], Missing),
             ([LField ''loyalty_incentive_text''], Missing),
             ([LField ''coupons''], Missing)])"
    using rejected_fields_are_named [where L = stub_lib and reply_s = vibe_reply
        and str_of = stub_str and current_basket_items = "[''Almond Milk'']"
        and past_purchase_patterns = "[(''favorite_brand'', ''EcoBrew'')]"
        and kw_s = "[(''shopping_persona'', JString ''Green Flag''),
                     (''key_behavioral_metrics'', JObject [(''return_rate'', JFloat (Finite (1 / 20)))]),
                     (''key_purchase_metrics'', JObject [(''total_spend'', JInt 350)]),
                     (''color_palette_hints'', JArray [JString ''#6A5ACD''])]",
        OF stub_init [of vibe_reply], THEN conjunct2, THEN conjunct2]
    by (simp add: stub_lib_simps stub_loads_replies SmartReceiptOutput_rejected_def rejected_def
        new_SmartReceiptOutput_def required_def also_field_def)
  from one two three show ?thesis by simp
qed

end
